theory Spec2Isabelle
  imports Main "HOL-Library.Product_Lexorder" "HOL-Library.Multiset"
begin

section \<open>Python strings\<close>

text \<open>
  A Python \<open>str\<close> is modelled as a \<open>string\<close>. Characters outside ASCII that occur in the
  templates of the scripts are written as their UTF-8 bytes, the encoding in which the
  pages are written to disk.
\<close>

definition NL :: char where
  "NL = CHR 0x0A"

definition BSL :: char where
  "BSL = CHR 0x5C"

definition TAB :: char where
  "TAB = CHR 0x09"

definition is_space :: "char \<Rightarrow> bool" where
  "is_space c = (c \<in> set [CHR '' '', TAB, NL, CHR 0x0B, CHR 0x0C, CHR 0x0D])"

definition is_digit :: "char \<Rightarrow> bool" where
  "is_digit c = (c \<in> set ''0123456789'')"

text \<open>
  \<open>str(n)\<close> for an integer: \<open>str_pos\<close> writes the decimal digits of a number that is not
  negative, \<open>str_int\<close> puts the sign in front, \<open>str_nat\<close> is \<open>str\<close> on a count.
\<close>

definition digit_char :: "nat \<Rightarrow> char" where
  "digit_char d = ''0123456789'' ! d"

function str_pos :: "int \<Rightarrow> string" where
  "str_pos n = (if n < 10 then [digit_char (nat n)] else str_pos (n div 10) @ [digit_char (nat (n mod 10))])"
  by pat_completeness auto
termination
  by (relation "measure nat") auto

declare str_pos.simps [simp del]

definition str_int :: "int \<Rightarrow> string" where
  "str_int i = (if i < 0 then CHR ''-'' # str_pos (- i) else str_pos i)"

definition str_nat :: "nat \<Rightarrow> string" where
  "str_nat n = str_pos (int n)"

text \<open>
  \<open>int(s)\<close> on a string: \<open>None\<close> stands for the \<open>ValueError\<close>. The scripts call it on
  regular-expression groups only; signs, blanks and underscores, which Python also
  accepts, are left out.
\<close>

definition digit_val :: "char \<Rightarrow> int" where
  "digit_val c = (case map_of (zip ''0123456789'' [0, 1, 2, 3, 4, 5, 6, 7, 8, 9]) c of Some d \<Rightarrow> d | None \<Rightarrow> 0)"

definition py_int :: "string \<Rightarrow> int option" where
  "py_int s = (if s \<noteq> [] \<and> list_all is_digit s
               then Some (foldl (\<lambda>acc c. 10 * acc + digit_val c) 0 s) else None)"

text \<open>\<open>s.zfill(w)\<close>: zeros go after a leading sign.\<close>

definition zfill :: "nat \<Rightarrow> string \<Rightarrow> string" where
  "zfill w s =
     (case s of
        [] \<Rightarrow> replicate w CHR ''0''
      | c # cs \<Rightarrow>
          if c = CHR ''+'' \<or> c = CHR ''-''
          then c # replicate (w - length s) CHR ''0'' @ cs
          else replicate (w - length s) CHR ''0'' @ s)"

text \<open>\<open>s.strip()\<close>, \<open>s.split()\<close>, \<open>sep.join(xs)\<close>, \<open>s.lower()\<close>, \<open>s.upper()\<close> (ASCII).\<close>

definition py_strip :: "string \<Rightarrow> string" where
  "py_strip s = rev (dropWhile is_space (rev (dropWhile is_space s)))"

fun split_ws :: "string \<Rightarrow> string \<Rightarrow> string list" where
  "split_ws cur [] = (if cur = [] then [] else [rev cur])"
| "split_ws cur (c # cs) =
     (if is_space c then (if cur = [] then split_ws [] cs else rev cur # split_ws [] cs)
      else split_ws (c # cur) cs)"

definition py_split :: "string \<Rightarrow> string list" where
  "py_split s = split_ws [] s"

fun py_join :: "string \<Rightarrow> string list \<Rightarrow> string" where
  "py_join sep [] = []"
| "py_join sep [x] = x"
| "py_join sep (x # y # ys) = x @ sep @ py_join sep (y # ys)"

definition UPPERS :: string where
  "UPPERS = ''ABCDEFGHIJKLMNOPQRSTUVWXYZ''"

definition LOWERS :: string where
  "LOWERS = ''abcdefghijklmnopqrstuvwxyz''"

definition lower_char :: "char \<Rightarrow> char" where
  "lower_char c = (case map_of (zip UPPERS LOWERS) c of Some l \<Rightarrow> l | None \<Rightarrow> c)"

definition upper_char :: "char \<Rightarrow> char" where
  "upper_char c = (case map_of (zip LOWERS UPPERS) c of Some u \<Rightarrow> u | None \<Rightarrow> c)"

definition py_lower :: "string \<Rightarrow> string" where
  "py_lower s = map lower_char s"

text \<open>\<open>s.replace(old, new)\<close> for a non-empty \<open>old\<close>: leftmost occurrences, not overlapping.\<close>

fun py_replace :: "string \<Rightarrow> string \<Rightarrow> string \<Rightarrow> string" where
  "py_replace old new [] = []"
| "py_replace old new (c # cs) =
     (if old \<noteq> [] \<and> take (length old) (c # cs) = old \<and> length (drop (length old) (c # cs)) < length (c # cs)
      then new @ py_replace old new (drop (length old) (c # cs))
      else c # py_replace old new cs)"

section \<open>Regular expressions of the scripts\<close>

text \<open>
  The fragment of Python's \<open>re\<close> that the scripts use, with the backtracking order of the
  library: a greedy quantifier tries the longest repetition first, a lazy one the
  shortest. A pattern is a list of segments, a segment being a run of pieces that is a
  capturing group or not.
\<close>

datatype atom = Lit char | Digit | AnyChar | OneOf "char list"

fun atom_ok :: "atom \<Rightarrow> char \<Rightarrow> bool" where
  "atom_ok (Lit c) x = (x = c)"
| "atom_ok Digit x = is_digit x"
| "atom_ok AnyChar x = (x \<noteq> NL)"
| "atom_ok (OneOf cs) x = (x \<in> set cs)"

datatype quant = Once | Exactly nat | StarGreedy | PlusGreedy | StarLazy | PlusLazy

datatype piece = P atom quant | EndAnchor

type_synonym regex = "(bool \<times> piece list) list"

text \<open>
  \<open>rmatch ps s\<close> matches the pieces at the start of \<open>s\<close> and returns the text each piece
  consumed and the rest of the string; \<open>None\<close> when no way of matching exists.
\<close>

function rmatch :: "piece list \<Rightarrow> string \<Rightarrow> (string list \<times> string) option" where
  "rmatch [] s = Some ([], s)"
| "rmatch (EndAnchor # ps) s =
     (if s = [] then map_option (\<lambda>(ts, r). ([] # ts, r)) (rmatch ps s) else None)"
| "rmatch (P a Once # ps) s =
     (case s of
        [] \<Rightarrow> None
      | c # cs \<Rightarrow> if atom_ok a c then map_option (\<lambda>(ts, r). ([c] # ts, r)) (rmatch ps cs) else None)"
| "rmatch (P a (Exactly 0) # ps) s = map_option (\<lambda>(ts, r). ([] # ts, r)) (rmatch ps s)"
| "rmatch (P a (Exactly (Suc n)) # ps) s =
     (case s of
        [] \<Rightarrow> None
      | c # cs \<Rightarrow>
          if atom_ok a c
          then (case rmatch (P a (Exactly n) # ps) cs of
                  Some (t # ts, r) \<Rightarrow> Some ((c # t) # ts, r)
                | _ \<Rightarrow> None)
          else None)"
| "rmatch (P a StarGreedy # ps) s =
     (case s of
        [] \<Rightarrow> map_option (\<lambda>(ts, r). ([] # ts, r)) (rmatch ps [])
      | c # cs \<Rightarrow>
          if atom_ok a c
          then (case rmatch (P a StarGreedy # ps) cs of
                  Some (t # ts, r) \<Rightarrow> Some ((c # t) # ts, r)
                | _ \<Rightarrow> map_option (\<lambda>(ts, r). ([] # ts, r)) (rmatch ps s))
          else map_option (\<lambda>(ts, r). ([] # ts, r)) (rmatch ps s))"
| "rmatch (P a PlusGreedy # ps) s =
     (case s of
        [] \<Rightarrow> None
      | c # cs \<Rightarrow>
          if atom_ok a c
          then (case rmatch (P a StarGreedy # ps) cs of
                  Some (t # ts, r) \<Rightarrow> Some ((c # t) # ts, r)
                | _ \<Rightarrow> None)
          else None)"
| "rmatch (P a StarLazy # ps) s =
     (case rmatch ps s of
        Some (ts, r) \<Rightarrow> Some ([] # ts, r)
      | None \<Rightarrow>
          (case s of
             [] \<Rightarrow> None
           | c # cs \<Rightarrow>
               if atom_ok a c
               then (case rmatch (P a StarLazy # ps) cs of
                       Some (t # ts, r) \<Rightarrow> Some ((c # t) # ts, r)
                     | _ \<Rightarrow> None)
               else None))"
| "rmatch (P a PlusLazy # ps) s =
     (case s of
        [] \<Rightarrow> None
      | c # cs \<Rightarrow>
          if atom_ok a c
          then (case rmatch (P a StarLazy # ps) cs of
                  Some (t # ts, r) \<Rightarrow> Some ((c # t) # ts, r)
                | _ \<Rightarrow> None)
          else None)"
  by pat_completeness auto
termination
  by (relation "measures [\<lambda>(ps, s). length s, \<lambda>(ps, s). size_list size ps]") auto

text \<open>The groups of a match: the texts of the capturing segments, in order.\<close>

fun groups_of :: "regex \<Rightarrow> string list \<Rightarrow> string list" where
  "groups_of [] ts = []"
| "groups_of ((cap, ps) # segs) ts =
     (if cap then concat (take (length ps) ts) # groups_of segs (drop (length ps) ts)
      else groups_of segs (drop (length ps) ts))"

definition pieces_of :: "regex \<Rightarrow> piece list" where
  "pieces_of rx = concat (map snd rx)"

text \<open>\<open>pattern.match\<close> at the start of \<open>s\<close>: the groups and the rest after the match.\<close>

definition re_match :: "regex \<Rightarrow> string \<Rightarrow> (string list \<times> string) option" where
  "re_match rx s = map_option (\<lambda>(ts, r). (groups_of rx ts, r)) (rmatch (pieces_of rx) s)"

text \<open>\<open>pattern.search(s)\<close>: the leftmost match; its groups.\<close>

fun re_search :: "regex \<Rightarrow> string \<Rightarrow> string list option" where
  "re_search rx [] = map_option fst (re_match rx [])"
| "re_search rx (c # cs) =
     (case re_match rx (c # cs) of Some (gs, r) \<Rightarrow> Some gs | None \<Rightarrow> re_search rx cs)"

text \<open>\<open>re.fullmatch(pattern, s)\<close>: a match that ends at the end of the string.\<close>

definition re_fullmatch :: "regex \<Rightarrow> string \<Rightarrow> string list option" where
  "re_fullmatch rx s = map_option fst (re_match (rx @ [(False, [EndAnchor])]) s)"

text \<open>
  The replacement template of \<open>re.sub\<close>: a backslash followed by a backslash is one
  literal backslash, a backslash followed by a digit refers to a group.
\<close>

datatype tpl = TLit char | TGroup nat

fun parse_template :: "string \<Rightarrow> tpl list" where
  "parse_template [] = []"
| "parse_template [c] = [TLit c]"
| "parse_template (c # d # cs) =
     (if c = BSL \<and> d = BSL then TLit BSL # parse_template cs
      else if c = BSL \<and> is_digit d then TGroup (nat (digit_val d)) # parse_template cs
      else TLit c # parse_template (d # cs))"

fun expand_tpl :: "tpl list \<Rightarrow> string list \<Rightarrow> string" where
  "expand_tpl [] gs = []"
| "expand_tpl (TLit c # ts) gs = c # expand_tpl ts gs"
| "expand_tpl (TGroup k # ts) gs =
     (if 0 < k \<and> k \<le> length gs then gs ! (k - 1) else []) @ expand_tpl ts gs"

text \<open>
  \<open>re.sub(pattern, repl, s)\<close>: every match, left to right and not overlapping, is replaced;
  after an empty match the next character is copied.
\<close>

function re_sub :: "regex \<Rightarrow> string \<Rightarrow> string \<Rightarrow> string" where
  "re_sub rx repl s =
     (case re_match rx s of
        None \<Rightarrow> (case s of [] \<Rightarrow> [] | c # cs \<Rightarrow> c # re_sub rx repl cs)
      | Some (gs, r) \<Rightarrow>
          expand_tpl (parse_template repl) gs @
            (if length r < length s then re_sub rx repl r
             else (case s of [] \<Rightarrow> [] | c # cs \<Rightarrow> c # re_sub rx repl cs)))"
  by pat_completeness auto
termination
  by (relation "measure (\<lambda>(rx, repl, s). length s)") auto

declare re_sub.simps [simp del]

section \<open>build_site: md_to_html\<close>

text \<open>
  The patterns are raw strings in which every backslash is doubled: \<open>\\*\\*(.+?)\\*\\*\<close>
  is two runs of backslashes, a lazy group of at least one character, and two runs of
  backslashes; the replacement \<open><strong>\\1</strong>\<close> holds an escaped backslash and
  the character \<open>1\<close>.
\<close>

definition RE_STRONG :: regex where
  "RE_STRONG = [(False, [P (Lit BSL) StarGreedy, P (Lit BSL) StarGreedy]),
                (True, [P AnyChar PlusLazy]),
                (False, [P (Lit BSL) StarGreedy, P (Lit BSL) StarGreedy])]"

definition RE_EM :: regex where
  "RE_EM = [(False, [P (Lit BSL) StarGreedy]),
            (True, [P AnyChar PlusLazy]),
            (False, [P (Lit BSL) StarGreedy])]"

definition REPL_STRONG :: string where
  "REPL_STRONG = ''<strong>'' @ [BSL, BSL] @ ''1</strong>''"

definition REPL_EM :: string where
  "REPL_EM = ''<em>'' @ [BSL, BSL] @ ''1</em>''"

definition html_escape :: "string \<Rightarrow> string" where
  "html_escape s = py_replace ''>'' ''&gt;'' (py_replace ''<'' ''&lt;'' (py_replace ''&'' ''&amp;'' s))"

definition md_to_html :: "string \<Rightarrow> string" where
  "md_to_html s = re_sub RE_EM REPL_EM (re_sub RE_STRONG REPL_STRONG (html_escape s))"

section \<open>Dates and times\<close>

text \<open>
  A naive \<open>datetime\<close>. The constructor \<open>datetime(y, mo, d, hh, mm, ss)\<close> raises
  \<open>ValueError\<close> outside the calendar; \<open>None\<close> stands for that error.
\<close>

record datetime =
  dt_year :: int
  dt_month :: int
  dt_day :: int
  dt_hour :: int
  dt_minute :: int
  dt_second :: int

definition is_leap :: "int \<Rightarrow> bool" where
  "is_leap y = (if y mod 100 = 0 then y mod 400 = 0 else y mod 4 = 0)"

definition days_in_month :: "int \<Rightarrow> int \<Rightarrow> int" where
  "days_in_month y m =
     (if m = 2 then (if is_leap y then 29 else 28)
      else if m = 4 \<or> m = 6 \<or> m = 9 \<or> m = 11 then 30 else 31)"

definition mk_datetime :: "int \<Rightarrow> int \<Rightarrow> int \<Rightarrow> int \<Rightarrow> int \<Rightarrow> int \<Rightarrow> datetime option" where
  "mk_datetime y mo d hh mm ss =
     (if 1 \<le> y \<and> y \<le> 9999 \<and> 1 \<le> mo \<and> mo \<le> 12 \<and> 1 \<le> d \<and> d \<le> days_in_month y mo
         \<and> 0 \<le> hh \<and> hh < 24 \<and> 0 \<le> mm \<and> mm < 60 \<and> 0 \<le> ss \<and> ss < 60
      then Some \<lparr>dt_year = y, dt_month = mo, dt_day = d, dt_hour = hh, dt_minute = mm, dt_second = ss\<rparr>
      else None)"

text \<open>Datetimes compare field by field, the year first.\<close>

definition dt_key :: "datetime \<Rightarrow> int \<times> int \<times> int \<times> int \<times> int \<times> int" where
  "dt_key dt = (dt_year dt, dt_month dt, dt_day dt, dt_hour dt, dt_minute dt, dt_second dt)"

text \<open>
  \<open>datetime.fromtimestamp(ts)\<close> gives the local time of the process: the civil date of
  \<open>ts\<close> seconds after the epoch, shifted by the offset of the local time zone. Fractions
  of a second are dropped, and the timestamp is taken to lie in the years the
  library accepts.
\<close>

definition civil_of :: "int \<Rightarrow> int \<Rightarrow> int \<Rightarrow> int \<times> int \<times> int" where
  "civil_of y doy mp =
     (if mp < 10 then (y, mp + 3, doy - (153 * mp + 2) div 5 + 1)
      else (y + 1, mp - 9, doy - (153 * mp + 2) div 5 + 1))"

definition civil_doy :: "int \<Rightarrow> int \<Rightarrow> int \<times> int \<times> int" where
  "civil_doy y doy = civil_of y doy ((5 * doy + 2) div 153)"

definition civil_yoe :: "int \<Rightarrow> int \<Rightarrow> int \<Rightarrow> int \<times> int \<times> int" where
  "civil_yoe era doe yoe = civil_doy (yoe + era * 400) (doe - (365 * yoe + yoe div 4 - yoe div 100))"

definition civil_doe :: "int \<Rightarrow> int \<Rightarrow> int \<times> int \<times> int" where
  "civil_doe era doe = civil_yoe era doe ((doe - doe div 1460 + doe div 36524 - doe div 146096) div 365)"

text \<open>The civil date of a day number counted from 1970-01-01 (proleptic Gregorian calendar).\<close>

definition civil_from_days :: "int \<Rightarrow> int \<times> int \<times> int" where
  "civil_from_days z = civil_doe ((z + 719468) div 146097) ((z + 719468) mod 146097)"

fun datetime_of_parts :: "int \<times> int \<times> int \<Rightarrow> int \<Rightarrow> datetime" where
  "datetime_of_parts (y, m, d) s =
     \<lparr>dt_year = y, dt_month = m, dt_day = d,
      dt_hour = s div 3600, dt_minute = (s mod 3600) div 60, dt_second = s mod 60\<rparr>"

definition fromtimestamp :: "int \<Rightarrow> int \<Rightarrow> datetime" where
  "fromtimestamp utc_offset ts =
     datetime_of_parts (civil_from_days ((ts + utc_offset) div 86400)) ((ts + utc_offset) mod 86400)"

text \<open>
  The three \<open>strftime\<close> formats of the scripts. \<open>%Y\<close> is written with four digits (for
  years below 1000 the C library decides); the other fields have two.
\<close>

definition two :: "int \<Rightarrow> string" where
  "two n = zfill 2 (str_int n)"

definition four :: "int \<Rightarrow> string" where
  "four n = zfill 4 (str_int n)"

definition strftime_iso :: "datetime \<Rightarrow> string" where
  "strftime_iso dt = four (dt_year dt) @ ''-'' @ two (dt_month dt) @ ''-'' @ two (dt_day dt) @ '' ''
       @ two (dt_hour dt) @ '':'' @ two (dt_minute dt) @ '':'' @ two (dt_second dt)"

definition strftime_base :: "datetime \<Rightarrow> string" where
  "strftime_base dt = four (dt_year dt) @ ''-'' @ two (dt_month dt) @ ''-'' @ two (dt_day dt) @ ''_''
       @ two (dt_hour dt) @ two (dt_minute dt) @ two (dt_second dt)"

definition strftime_dmy :: "datetime \<Rightarrow> string" where
  "strftime_dmy dt = two (dt_day dt) @ ''.'' @ two (dt_month dt) @ ''.'' @ four (dt_year dt)"

text \<open>
  \<open>y, mo, d, hh, mm, ss = map(int, m.groups())\<close> followed by the constructor; \<open>None\<close> is
  the \<open>ValueError\<close> of \<open>int\<close> or of the constructor.
\<close>

definition datetime_of_groups :: "string list \<Rightarrow> datetime option" where
  "datetime_of_groups gs =
     (case map py_int gs of
        [Some y, Some mo, Some d, Some hh, Some mm, Some ss] \<Rightarrow> mk_datetime y mo d hh mm ss
      | _ \<Rightarrow> None)"

section \<open>Files\<close>

text \<open>
  What the scripts read of an image file. \<open>exif\<close> is the dictionary of \<open>_getexif()\<close>
  with its values as text, \<open>None\<close> when the file cannot be opened or has no EXIF data;
  \<open>mdls_out\<close> is the output of the \<open>mdls\<close> command, \<open>None\<close> when the command fails;
  \<open>st_birthtime\<close> is \<open>None\<close> where the platform has no such field; \<open>pixels\<close> is the
  decoded picture, \<open>None\<close> when Pillow cannot decode the file.
\<close>

record image_file =
  exif :: "(int \<times> string) list option"
  mdls_out :: "string option"
  st_birthtime :: "int option"
  st_mtime :: int
  pixels :: "nat option"

text \<open>A path is its parent directory and its name.\<close>

type_synonym path = "string \<times> string"

text \<open>\<open>p.suffix\<close> and \<open>p.stem\<close> of pathlib: the name is split at its last dot, unless that
  dot is the first or the last character.\<close>

definition last_dot :: "string \<Rightarrow> nat option" where
  "last_dot name =
     (case filter (\<lambda>i. name ! i = CHR ''.'') (rev [0..<length name]) of [] \<Rightarrow> None | i # _ \<Rightarrow> Some i)"

definition path_suffix :: "string \<Rightarrow> string" where
  "path_suffix name =
     (case last_dot name of
        None \<Rightarrow> []
      | Some i \<Rightarrow> if 0 < i \<and> i + 1 < length name then drop i name else [])"

definition path_stem :: "string \<Rightarrow> string" where
  "path_stem name =
     (case last_dot name of
        None \<Rightarrow> name
      | Some i \<Rightarrow> if 0 < i \<and> i + 1 < length name then take i name else name)"

definition IMG_EXTS :: "string list" where
  "IMG_EXTS = [''.jpg'', ''.jpeg'', ''.png'', ''.tif'', ''.tiff'', ''.webp'', ''.heic'', ''.heif'']"

text \<open>\<open>iter_images\<close> over the regular files of the folder, in the order the system lists them.\<close>

definition iter_images :: "(path \<times> image_file) list \<Rightarrow> (path \<times> image_file) list" where
  "iter_images files = filter (\<lambda>(p, f). py_lower (path_suffix (snd p)) \<in> set IMG_EXTS) files"

definition TAG_DATETIME_ORIGINAL :: int where
  "TAG_DATETIME_ORIGINAL = 36867"

definition TAG_DATETIME_DIGITIZED :: int where
  "TAG_DATETIME_DIGITIZED = 36868"

definition TAG_DATETIME :: int where
  "TAG_DATETIME = 306"

datatype error = ValueError | FileNotFoundError string | ImageError | SystemExit

text \<open>
  What a script sees of the machine it runs on: whether it is macOS, the offset of the
  local time zone, and the library's \<open>datetime.strptime\<close> for the format
  \<open>%Y-%m-%d %H:%M:%S\<close> (\<open>None\<close> is its \<open>ValueError\<close>).
\<close>

record platform =
  darwin :: bool
  utc_offset :: int
  strptime :: "string \<Rightarrow> datetime option"

section \<open>build_excel_from_images\<close>

text \<open>\<open>(\d{4}):(\d{2}):(\d{2})[ T](\d{2}):(\d{2}):(\d{2})\<close>\<close>

definition DATE_RE_EXIF :: regex where
  "DATE_RE_EXIF =
     [(True, [P Digit (Exactly 4)]), (False, [P (Lit CHR '':'') Once]),
      (True, [P Digit (Exactly 2)]), (False, [P (Lit CHR '':'') Once]),
      (True, [P Digit (Exactly 2)]), (False, [P (OneOf '' T'') Once]),
      (True, [P Digit (Exactly 2)]), (False, [P (Lit CHR '':'') Once]),
      (True, [P Digit (Exactly 2)]), (False, [P (Lit CHR '':'') Once]),
      (True, [P Digit (Exactly 2)])]"

text \<open>\<open>(\d{4})-(\d{2})-(\d{2})[_\-](\d{2})(\d{2})(\d{2})\<close>\<close>

definition DATE_RE_FILENAME :: regex where
  "DATE_RE_FILENAME =
     [(True, [P Digit (Exactly 4)]), (False, [P (Lit CHR ''-'') Once]),
      (True, [P Digit (Exactly 2)]), (False, [P (Lit CHR ''-'') Once]),
      (True, [P Digit (Exactly 2)]), (False, [P (OneOf ''_-'') Once]),
      (True, [P Digit (Exactly 2)]),
      (True, [P Digit (Exactly 2)]),
      (True, [P Digit (Exactly 2)])]"

text \<open>
  \<open>datetime_from_filename\<close>: the constructor is called outside any \<open>try\<close>, so digits that
  are no calendar date end the script with \<open>ValueError\<close>.
\<close>

definition datetime_from_filename :: "path \<Rightarrow> error + datetime option" where
  "datetime_from_filename p =
     (case re_search DATE_RE_FILENAME (path_stem (snd p)) of
        None \<Rightarrow> Inr None
      | Some gs \<Rightarrow> (case datetime_of_groups gs of None \<Rightarrow> Inl ValueError | Some d \<Rightarrow> Inr (Some d)))"

text \<open>
  \<open>extract_exif_datetime\<close>: the loop over the three tags. A tag that is absent, empty or
  does not match is skipped; an exception (here the \<open>ValueError\<close> of the constructor) is
  caught around the whole loop and gives \<open>None\<close>. The function has the same text in
  \<open>rename_and_convert_to_jpeg\<close>.
\<close>

fun exif_scan :: "(int \<times> string) list \<Rightarrow> int list \<Rightarrow> datetime option" where
  "exif_scan ex [] = None"
| "exif_scan ex (t # ts) =
     (case map_of ex t of
        None \<Rightarrow> exif_scan ex ts
      | Some raw \<Rightarrow>
          if raw = [] then exif_scan ex ts
          else (case re_search DATE_RE_EXIF raw of
                  None \<Rightarrow> exif_scan ex ts
                | Some gs \<Rightarrow> datetime_of_groups gs))"

definition extract_exif_datetime :: "image_file \<Rightarrow> datetime option" where
  "extract_exif_datetime f =
     (case exif f of
        None \<Rightarrow> None
      | Some ex \<Rightarrow>
          if ex = [] then None
          else exif_scan ex [TAG_DATETIME_ORIGINAL, TAG_DATETIME_DIGITIZED, TAG_DATETIME])"

definition mdls_creation_datetime :: "platform \<Rightarrow> image_file \<Rightarrow> datetime option" where
  "mdls_creation_datetime pf f =
     (if \<not> darwin pf then None
      else (case mdls_out f of
              None \<Rightarrow> None
            | Some raw \<Rightarrow>
                (let out = py_strip raw in
                 if out \<noteq> [] \<and> out \<noteq> ''(null)''
                 then (let parts = py_split out in
                       if 2 \<le> length parts then strptime pf (py_join '' '' (take 2 parts)) else None)
                 else None)))"

definition fs_birth_or_mtime :: "platform \<Rightarrow> image_file \<Rightarrow> datetime" where
  "fs_birth_or_mtime pf f =
     (case st_birthtime f of
        Some bt \<Rightarrow> if bt \<noteq> 0 then fromtimestamp (utc_offset pf) bt
                   else fromtimestamp (utc_offset pf) (st_mtime f)
      | None \<Rightarrow> fromtimestamp (utc_offset pf) (st_mtime f))"

text \<open>\<open>a or b\<close> on optional datetimes: a datetime is never false.\<close>

definition py_or :: "'a option \<Rightarrow> 'a option \<Rightarrow> 'a option" where
  "py_or a b = (case a of Some x \<Rightarrow> Some x | None \<Rightarrow> b)"

text \<open>The right-hand side of \<open>dt = ... or ... or ... or ...\<close> in \<open>main\<close>.\<close>

definition resolve_dt :: "platform \<Rightarrow> path \<times> image_file \<Rightarrow> error + datetime" where
  "resolve_dt pf pfile =
     (case datetime_from_filename (fst pfile) of
        Inl e \<Rightarrow> Inl e
      | Inr a \<Rightarrow>
          (case py_or a (py_or (extract_exif_datetime (snd pfile)) (mdls_creation_datetime pf (snd pfile))) of
             Some d \<Rightarrow> Inr d
           | None \<Rightarrow> Inr (fs_birth_or_mtime pf (snd pfile))))"

fun collect_items :: "platform \<Rightarrow> (path \<times> image_file) list \<Rightarrow> error + ((path \<times> image_file) \<times> datetime) list" where
  "collect_items pf [] = Inr []"
| "collect_items pf (x # xs) =
     (case resolve_dt pf x of
        Inl e \<Rightarrow> Inl e
      | Inr dt \<Rightarrow> (case collect_items pf xs of Inl e \<Rightarrow> Inl e | Inr its \<Rightarrow> Inr ((x, dt) # its)))"

text \<open>\<open>nice_desc_from_name\<close>, with the pattern \<open>[_\-]+\<close>.\<close>

definition RE_SEP :: regex where
  "RE_SEP = [(False, [P (OneOf ''_-'') PlusGreedy])]"

definition nice_desc_from_name :: "string \<Rightarrow> string" where
  "nice_desc_from_name name =
     (let base = py_strip (re_sub RE_SEP '' '' (path_stem name)) in
      case base of [] \<Rightarrow> [] | c # cs \<Rightarrow> upper_char c # cs)"

record excel_args =
  x_base_url :: "string option"
  desc_from_name :: bool

record xrow =
  row_id :: string
  bildname :: string
  datum :: string
  beschreibung :: string
  link :: string

definition mk_row :: "excel_args \<Rightarrow> nat \<Rightarrow> nat \<Rightarrow> (path \<times> image_file) \<times> datetime \<Rightarrow> xrow" where
  "mk_row args pad i item =
     (let id_str = zfill pad (str_nat i); name = snd (fst (fst item)) in
      \<lparr>row_id = id_str,
       bildname = name,
       datum = strftime_iso (snd item),
       beschreibung = (if desc_from_name args then nice_desc_from_name name else []),
       link = (case x_base_url args of
                 None \<Rightarrow> []
               | Some b \<Rightarrow> if b \<noteq> [] then b @ ''/e/'' @ id_str @ ''.html'' else [])\<rparr>)"

text \<open>\<open>items.sort(key=lambda x: x[1])\<close>: a stable sort on the datetime.\<close>

definition sort_items :: "((path \<times> image_file) \<times> datetime) list \<Rightarrow> ((path \<times> image_file) \<times> datetime) list" where
  "sort_items items = sort_key (\<lambda>x. dt_key (snd x)) items"

definition id_pad :: "nat \<Rightarrow> nat" where
  "id_pad n = max 3 (length (str_nat n))"

definition build_rows :: "excel_args \<Rightarrow> ((path \<times> image_file) \<times> datetime) list \<Rightarrow> xrow list" where
  "build_rows args items =
     (let its = sort_items items; pad = id_pad (length its) in
      map (\<lambda>(i, item). mk_row args pad i item) (zip [1..<Suc (length its)] its))"

text \<open>\<open>main\<close> up to the data frame; with no image it prints a note and returns.\<close>

definition excel_main :: "platform \<Rightarrow> excel_args \<Rightarrow> (path \<times> image_file) list \<Rightarrow> error + xrow list" where
  "excel_main pf args files =
     (case collect_items pf (iter_images files) of
        Inl e \<Rightarrow> Inl e
      | Inr items \<Rightarrow> if items = [] then Inr [] else Inr (build_rows args items))"

section \<open>rename_and_convert_to_jpeg\<close>

definition get_file_mtime :: "platform \<Rightarrow> image_file \<Rightarrow> datetime" where
  "get_file_mtime pf f = fromtimestamp (utc_offset pf) (st_mtime f)"

definition path_exists :: "(path \<times> image_file) list \<Rightarrow> path \<Rightarrow> bool" where
  "path_exists disk p = (map_of disk p \<noteq> None)"

text \<open>\<open>unique_target_name\<close>: the \<open>while True\<close> loop ends at the first free candidate.\<close>

partial_function (option) unique_loop :: "(path \<times> image_file) list \<Rightarrow> string \<Rightarrow> string \<Rightarrow> string \<Rightarrow> nat \<Rightarrow> path option" where
  "unique_loop disk dir stem ext i =
     (let cand = (dir, stem @ ''-'' @ str_nat i @ ext) in
      if \<not> path_exists disk cand then Some cand else unique_loop disk dir stem ext (i + 1))"

declare unique_loop.simps [code]

definition unique_target_name :: "(path \<times> image_file) list \<Rightarrow> path \<Rightarrow> path option" where
  "unique_target_name disk target =
     (if \<not> path_exists disk target then Some target
      else unique_loop disk (fst target) (path_stem (snd target)) (path_suffix (snd target)) 1)"

text \<open>A plan is \<open>(src, dst, dt, used_exif)\<close>. The planning loop only reads the disk.\<close>

type_synonym plan = "path \<times> path \<times> datetime \<times> bool"

definition plan_one :: "platform \<Rightarrow> (path \<times> image_file) list \<Rightarrow> path \<times> image_file \<Rightarrow> plan option" where
  "plan_one pf disk img =
     (let (dt, used_exif) =
            (case extract_exif_datetime (snd img) of
               Some d \<Rightarrow> (d, True)
             | None \<Rightarrow> (get_file_mtime pf (snd img), False));
          base = strftime_base dt
      in map_option (\<lambda>dst. (fst img, dst, dt, used_exif))
           (unique_target_name disk (fst (fst img), base @ ''.jpeg'')))"

fun make_plans :: "platform \<Rightarrow> (path \<times> image_file) list \<Rightarrow> (path \<times> image_file) list \<Rightarrow> plan list option" where
  "make_plans pf disk [] = Some []"
| "make_plans pf disk (img # imgs) =
     (case plan_one pf disk img of
        None \<Rightarrow> None
      | Some pl \<Rightarrow> map_option ((#) pl) (make_plans pf disk imgs))"

text \<open>
  The conversion loop under \<open>--apply\<close>: the source is opened and saved as JPEG at the
  destination, replacing what is there, and then removed unless it is the destination.
  A source that is gone or cannot be decoded is reported and skipped. The saved file
  carries the picture, no EXIF data, and the time of the run.
\<close>

definition disk_write :: "(path \<times> image_file) list \<Rightarrow> path \<Rightarrow> image_file \<Rightarrow> (path \<times> image_file) list" where
  "disk_write disk p f = (if path_exists disk p then map (\<lambda>(q, g). if q = p then (q, f) else (q, g)) disk
                          else disk @ [(p, f)])"

definition disk_remove :: "(path \<times> image_file) list \<Rightarrow> path \<Rightarrow> (path \<times> image_file) list" where
  "disk_remove disk p = filter (\<lambda>(q, g). q \<noteq> p) disk"

definition convert_one :: "int \<Rightarrow> (path \<times> image_file) list \<Rightarrow> plan \<Rightarrow> (path \<times> image_file) list" where
  "convert_one now disk pl =
     (let src = fst pl; dst = fst (snd pl) in
      case map_of disk src of
        None \<Rightarrow> disk
      | Some f \<Rightarrow>
          (case pixels f of
             None \<Rightarrow> disk
           | Some px \<Rightarrow>
               (let disk1 = disk_write disk dst
                      \<lparr>exif = None, mdls_out = None, st_birthtime = None, st_mtime = now, pixels = Some px\<rparr>
                in if src \<noteq> dst then disk_remove disk1 src else disk1)))"

text \<open>\<open>main\<close>: the plans and the disk after the run; \<open>None\<close> if planning never ends.\<close>

definition rename_main :: "platform \<Rightarrow> bool \<Rightarrow> int \<Rightarrow> (path \<times> image_file) list \<Rightarrow> (plan list \<times> (path \<times> image_file) list) option" where
  "rename_main pf apply_flag now disk =
     (case make_plans pf disk (iter_images disk) of
        None \<Rightarrow> None
      | Some plans \<Rightarrow> Some (plans, if apply_flag then foldl (convert_one now) disk plans else disk))"

section \<open>build_site\<close>

subsection \<open>The spreadsheet\<close>

text \<open>
  A cell of the data frame: empty (\<open>NaN\<close>), a text, a whole number, or a date that
  pandas already read as a timestamp. A sheet is its header and its rows, a row having one
  cell for each column.
\<close>

datatype cell = NaN | Txt string | Num int | Stamp datetime

record sheet =
  columns :: "string list"
  cells :: "cell list list"

definition py_str_cell :: "cell \<Rightarrow> string" where
  "py_str_cell v = (case v of NaN \<Rightarrow> ''nan'' | Txt t \<Rightarrow> t | Num n \<Rightarrow> str_int n | Stamp d \<Rightarrow> strftime_iso d)"

definition cell_at :: "string list \<Rightarrow> cell list \<Rightarrow> string \<Rightarrow> cell" where
  "cell_at cols row c = (case map_of (zip cols row) c of None \<Rightarrow> NaN | Some v \<Rightarrow> v)"

text \<open>\<open>normalize_colname\<close>; the fourth string of its tuple is two backslashes.\<close>

definition normalize_colname :: "string \<Rightarrow> string" where
  "normalize_colname name =
     foldl (\<lambda>s ch. py_replace ch [] s) (py_lower (py_strip name))
       ['' '', [TAB], ''/'', [BSL, BSL], ''_'', ''-'']"

text \<open>The dictionary \<open>{normalize_colname(c): c for c in df.columns}\<close>: a later column wins.\<close>

definition cols_ci :: "string list \<Rightarrow> string \<Rightarrow> string option" where
  "cols_ci cols key =
     (case filter (\<lambda>c. normalize_colname c = key) cols of [] \<Rightarrow> None | x # xs \<Rightarrow> Some (last (x # xs)))"

definition find_date_column :: "string list \<Rightarrow> string option" where
  "find_date_column cols =
     (case cols_ci cols ''datumjahr'' of Some c \<Rightarrow> Some c | None \<Rightarrow> cols_ci cols ''datum'')"

text \<open>
  \<open>safe_date_from_excel\<close>. The pattern \<open>\\d{4}\<close> of the raw string is a backslash and four
  letters \<open>d\<close>. \<open>datetime(int(s), 1, 1)\<close> stands outside the \<open>try\<close>. The library's
  \<open>pd.to_datetime(val, dayfirst=True, errors="coerce")\<close> is a parameter, \<open>None\<close> being
  \<open>NaT\<close> or an exception.
\<close>

definition YEAR_RE :: regex where
  "YEAR_RE = [(False, [P (Lit BSL) Once, P (Lit CHR ''d'') (Exactly 4)])]"

definition safe_date_from_excel :: "(cell \<Rightarrow> datetime option) \<Rightarrow> cell \<Rightarrow> error + datetime option" where
  "safe_date_from_excel to_dt val =
     (if val = NaN then Inr None
      else (let s = py_strip (py_str_cell val) in
            if re_fullmatch YEAR_RE s \<noteq> None
            then (case py_int s of
                    None \<Rightarrow> Inl ValueError
                  | Some y \<Rightarrow> (case mk_datetime y 1 1 0 0 0 of None \<Rightarrow> Inl ValueError | Some d \<Rightarrow> Inr (Some d)))
            else Inr (to_dt val)))"

subsection \<open>EXIF dates\<close>

text \<open>
  \<open>DATE_RE\<close> is the raw string \<open>(\\d{4}):(\\d{2}):(\\d{2})[ T](\\d{2}):(\\d{2}):(\\d{2})\<close>: in
  every group a backslash and then letters \<open>d\<close>.
\<close>

definition SITE_DATE_RE :: regex where
  "SITE_DATE_RE =
     [(True, [P (Lit BSL) Once, P (Lit CHR ''d'') (Exactly 4)]), (False, [P (Lit CHR '':'') Once]),
      (True, [P (Lit BSL) Once, P (Lit CHR ''d'') (Exactly 2)]), (False, [P (Lit CHR '':'') Once]),
      (True, [P (Lit BSL) Once, P (Lit CHR ''d'') (Exactly 2)]), (False, [P (OneOf '' T'') Once]),
      (True, [P (Lit BSL) Once, P (Lit CHR ''d'') (Exactly 2)]), (False, [P (Lit CHR '':'') Once]),
      (True, [P (Lit BSL) Once, P (Lit CHR ''d'') (Exactly 2)]), (False, [P (Lit CHR '':'') Once]),
      (True, [P (Lit BSL) Once, P (Lit CHR ''d'') (Exactly 2)])]"

fun site_exif_scan :: "(int \<times> string) list \<Rightarrow> int list \<Rightarrow> datetime option" where
  "site_exif_scan ex [] = None"
| "site_exif_scan ex (t # ts) =
     (case map_of ex t of
        None \<Rightarrow> site_exif_scan ex ts
      | Some raw \<Rightarrow>
          (case re_search SITE_DATE_RE raw of
             None \<Rightarrow> site_exif_scan ex ts
           | Some gs \<Rightarrow> datetime_of_groups gs))"

definition exif_datetime :: "image_file \<Rightarrow> datetime option" where
  "exif_datetime f =
     (case exif f of
        None \<Rightarrow> None
      | Some ex \<Rightarrow>
          if ex = [] then None
          else site_exif_scan ex [TAG_DATETIME_ORIGINAL, TAG_DATETIME_DIGITIZED, TAG_DATETIME])"

subsection \<open>Templates\<close>

definition DQ :: string where
  "DQ = [CHR 0x22]"

definition SQ :: string where
  "SQ = [CHR 0x27]"

definition CSS :: string where
  "CSS =
     [NL]
       @ '':root{--bg:#fafafa;--fg:#222;--muted:#666;--card:#fff;--shadow:rgba(0,0,0,.06);--radius:16px;--maxw:960px}''
       @ [NL] @ ''*{box-sizing:border-box}'' @ [NL]
       @ ''html,body{margin:0;padding:0;background:var(--bg);color:var(--fg);font:16px/1.6 system-ui,-apple-system,Segoe UI,Roboto,Ubuntu,''
       @ SQ @ ''Helvetica Neue'' @ SQ @ '',Arial}'' @ [NL]
       @ ''img{max-width:100%;height:auto;display:block}'' @ [NL]
       @ ''a{color:#0a58ca;text-decoration:none}a:hover{text-decoration:underline}'' @ [NL]
       @ ''.site-header,.site-footer{max-width:var(--maxw);margin:auto;padding:16px 20px}'' @ [NL]
       @ ''.brand{font-weight:700;font-size:20px}'' @ [NL]
       @ ''main{max-width:var(--maxw);margin:0 auto;padding:10px 20px 40px}'' @ [NL]
       @ ''.grid{display:grid;grid-template-columns:repeat(auto-fill,minmax(240px,1fr));gap:18px}''
       @ [NL]
       @ ''.card{background:var(--card);border-radius:var(--radius);box-shadow:0 10px 20px var(--shadow);overflow:hidden;transition:transform .15s ease,box-shadow .15s ease}''
       @ [NL] @ ''.card:hover{transform:translateY(-2px);box-shadow:0 14px 24px var(--shadow)}''
       @ [NL]
       @ ''.card .thumb{aspect-ratio:4/3;object-fit:cover}.card .body{padding:12px 14px}.card .meta{font-size:12px;color:var(--muted);display:flex;gap:10px;flex-wrap:wrap}''
       @ [NL]
       @ ''.entry-card{background:var(--card);border-radius:var(--radius);box-shadow:0 10px 20px var(--shadow);padding:18px}''
       @ [NL]
       @ ''.entry-figure{margin:0 0 12px 0}.entry-text{white-space:pre-wrap;font-size:18px}.entry-meta{color:var(--muted);margin:6px 0 14px 0}''
       @ [NL] @ ''.entry-nav{display:flex;gap:12px;margin-top:16px;flex-wrap:wrap}'' @ [NL]"

definition INDEX_TEMPLATE :: "string \<Rightarrow> string \<Rightarrow> string" where
  "INDEX_TEMPLATE css cards =
     ''<!doctype html><html lang='' @ DQ @ ''de'' @ DQ @ ''><head><meta charset='' @ DQ
       @ ''utf-8'' @ DQ @ ''/><meta name='' @ DQ @ ''viewport'' @ DQ @ '' content='' @ DQ
       @ ''width=device-width, initial-scale=1'' @ DQ @ ''/><title>'' @ [CHR 0xC3, CHR 0x9C]
       @ ''bersicht</title><style>'' @ css @ ''</style></head><body><header class='' @ DQ
       @ ''site-header'' @ DQ @ ''><div class='' @ DQ @ ''brand'' @ DQ @ ''>''
       @ [CHR 0xF0, CHR 0x9F, CHR 0x8E, CHR 0x81] @ '' QR'' @ [CHR 0xE2, CHR 0x80, CHR 0x91]
       @ ''Geschenk</div></header><main><section><h1>Alle Eintr'' @ [CHR 0xC3, CHR 0xA4]
       @ ''ge</h1><div class='' @ DQ @ ''grid'' @ DQ @ ''>'' @ cards
       @ ''</div></section></main><footer class='' @ DQ @ ''site-footer'' @ DQ
       @ ''><p>Erstellt mit '' @ [CHR 0xE2, CHR 0x9D, CHR 0xA4, CHR 0xEF, CHR 0xB8, CHR 0x8F]
       @ '' f'' @ [CHR 0xC3, CHR 0xBC] @ ''rs Geschenk</p></footer></body></html>''"

definition CARD_TEMPLATE :: "string \<Rightarrow> string \<Rightarrow> string \<Rightarrow> string \<Rightarrow> string \<Rightarrow> string" where
  "CARD_TEMPLATE href thumb_src num date preview =
     ''<a class='' @ DQ @ ''card'' @ DQ @ '' href='' @ DQ @ href @ DQ @ ''><img class='' @ DQ
       @ ''thumb'' @ DQ @ '' src='' @ DQ @ thumb_src @ DQ @ '' alt='' @ DQ @ DQ @ ''><div class=''
       @ DQ @ ''body'' @ DQ @ ''><div class='' @ DQ @ ''meta'' @ DQ @ ''><span>#'' @ num
       @ ''</span><span>'' @ date @ ''</span></div><div>'' @ preview @ ''</div></div></a>''"

definition ENTRY_TEMPLATE :: "string \<Rightarrow> string \<Rightarrow> string \<Rightarrow> string \<Rightarrow> string \<Rightarrow> string \<Rightarrow> string \<Rightarrow> string" where
  "ENTRY_TEMPLATE css num image_name date text_html prev_link next_link =
     ''<!doctype html><html lang='' @ DQ @ ''de'' @ DQ @ ''><head><meta charset='' @ DQ
       @ ''utf-8'' @ DQ @ ''/><meta name='' @ DQ @ ''viewport'' @ DQ @ '' content='' @ DQ
       @ ''width=device-width, initial-scale=1'' @ DQ @ ''/><title>Eintrag '' @ num
       @ ''</title><style>'' @ css @ ''</style></head><body><header class='' @ DQ @ ''site-header''
       @ DQ @ ''><a href='' @ DQ @ ''../index.html'' @ DQ @ '' class='' @ DQ @ ''brand'' @ DQ @ ''>''
       @ [CHR 0xF0, CHR 0x9F, CHR 0x8E, CHR 0x81] @ '' QR'' @ [CHR 0xE2, CHR 0x80, CHR 0x91]
       @ ''Geschenk</a></header><main><article class='' @ DQ @ ''entry'' @ DQ @ ''><div class='' @ DQ
       @ ''entry-card'' @ DQ @ ''><figure class='' @ DQ @ ''entry-figure'' @ DQ @ ''><img src='' @ DQ
       @ ''../assets/images/'' @ image_name @ DQ @ '' alt='' @ DQ @ DQ @ ''></figure><div class='' @ DQ
       @ ''entry-meta'' @ DQ @ ''>'' @ date @ ''</div><div class='' @ DQ @ ''entry-text'' @ DQ
       @ ''>'' @ text_html @ ''</div></div><nav class='' @ DQ @ ''entry-nav'' @ DQ @ ''><a href=''
       @ DQ @ ''../index.html'' @ DQ @ ''>'' @ [CHR 0xE2, CHR 0x86, CHR 0x90] @ '' Zur''
       @ [CHR 0xC3, CHR 0xBC] @ ''ck zur '' @ [CHR 0xC3, CHR 0x9C] @ ''bersicht</a>'' @ prev_link
       @ next_link @ ''</nav></article></main><footer class='' @ DQ @ ''site-footer'' @ DQ
       @ ''><p>Erstellt mit '' @ [CHR 0xE2, CHR 0x9D, CHR 0xA4, CHR 0xEF, CHR 0xB8, CHR 0x8F]
       @ '' f'' @ [CHR 0xC3, CHR 0xBC] @ ''rs Geschenk</p></footer></body></html>''"

subsection \<open>The run\<close>

record site_args =
  s_base_url :: "string option"
  make_qr :: bool
  qrs_pdf :: bool
  labels :: bool

text \<open>
  What a run reads: the spreadsheet (\<open>None\<close> when the file is missing), the files under
  the images folder by the name a row gives them (\<open>None\<close> when the folder is missing), the
  pages that lie in the output folder from an earlier run, the offset of the local time
  zone, and what the library's date parser returns for a cell during the run (for a cell
  such as \<open>today\<close> or \<open>now\<close> pandas reads the clock, so its result belongs to the
  run and not to the spreadsheet).
\<close>

record site_env =
  xlsx :: "sheet option"
  images_dir :: "(string \<times> image_file) list option"
  out_before :: "(string \<times> string) list"
  tz_offset :: int
  to_datetime :: "cell \<Rightarrow> datetime option"

record entry =
  e_num :: string
  e_image :: string
  e_thumb :: string
  e_href :: string
  e_date :: string
  e_desc :: string

text \<open>
  What a run leaves: whether the old output folder was removed, the pictures and
  thumbnails copied (path and picture), the pages written in order (path under the
  output folder and text), the QR codes (file and encoded text), the PDF files
  requested (their drawing is not modelled), and the exception that ended the run.
\<close>

record site_result =
  cleared :: bool
  assets :: "(string \<times> nat) list"
  pages :: "(string \<times> string) list"
  qrs :: "(string \<times> string) list"
  pdfs :: "string list"
  err :: "error option"

text \<open>The date of a row: spreadsheet, then EXIF, then the modification time.\<close>

definition row_date :: "site_env \<Rightarrow> string list \<Rightarrow> string option \<Rightarrow> cell list \<Rightarrow> image_file \<Rightarrow> error + datetime" where
  "row_date env cols col_date row f =
     (case (case col_date of
              None \<Rightarrow> Inr None
            | Some c \<Rightarrow> safe_date_from_excel (to_datetime env) (cell_at cols row c)) of
        Inl e \<Rightarrow> Inl e
      | Inr dt1 \<Rightarrow>
          (let dt2 = (case dt1 of None \<Rightarrow> exif_datetime f | Some d \<Rightarrow> Some d);
               dt3 = (case dt2 of None \<Rightarrow> fromtimestamp (tz_offset env) (st_mtime f) | Some d \<Rightarrow> d)
           in Inr dt3))"

text \<open>
  The loop over the rows. \<open>idx\<close> is the index label of the row, counted from 0. The
  loop stops at the first exception: a missing picture, a file Pillow cannot decode
  (in \<open>resize_copy\<close>), or the \<open>ValueError\<close> of the date cell. It returns the copies made
  so far and the entries or the exception.
\<close>

fun build_entries :: "site_env \<Rightarrow> (string \<times> image_file) list \<Rightarrow> string list \<Rightarrow> string \<Rightarrow> string option \<Rightarrow> string option
    \<Rightarrow> nat \<Rightarrow> cell list list \<Rightarrow> (string \<times> nat) list \<times> (error + entry list)" where
  "build_entries env imgs cols col_img col_desc col_date idx [] = ([], Inr [])"
| "build_entries env imgs cols col_img col_desc col_date idx (row # rows) =
     (let n = idx + 1;
          num = zfill 3 (str_nat n);
          img_name = py_strip (py_str_cell (cell_at cols row col_img))
      in case map_of imgs img_name of
           None \<Rightarrow> ([], Inl (FileNotFoundError img_name))
         | Some f \<Rightarrow>
             (case pixels f of
                None \<Rightarrow> ([], Inl ImageError)
              | Some px \<Rightarrow>
                  (let copies = [(''assets/images/'' @ img_name, px), (''assets/thumbs/'' @ img_name, px)];
                       desc = (case col_desc of
                                 None \<Rightarrow> []
                               | Some c \<Rightarrow> (let val = cell_at cols row c in if val = NaN then [] else py_str_cell val))
                   in case row_date env cols col_date row f of
                        Inl e \<Rightarrow> (copies, Inl e)
                      | Inr dt \<Rightarrow>
                          (let m = \<lparr>e_num = num, e_image = img_name, e_thumb = ''assets/thumbs/'' @ img_name,
                                    e_href = ''e/'' @ num @ ''.html'', e_date = strftime_dmy dt, e_desc = desc\<rparr>
                           in case build_entries env imgs cols col_img col_desc col_date (idx + 1) rows of
                                (later, Inl e) \<Rightarrow> (copies @ later, Inl e)
                              | (later, Inr ms) \<Rightarrow> (copies @ later, Inr (m # ms))))))"

text \<open>
  The detail pages, one for each entry in order. In the loop \<open>i\<close> is below \<open>total\<close>, so
  \<open>i < total - 1\<close> is the same on natural numbers.
\<close>

definition prev_link_of :: "entry list \<Rightarrow> nat \<Rightarrow> string" where
  "prev_link_of entries i =
     (if 0 < i then '' <a href='' @ DQ @ e_href (entries ! (i - 1)) @ DQ @ ''>'' @ [CHR 0xC2, CHR 0xAB] @ '' Vorheriger</a>'' else [])"

definition next_link_of :: "entry list \<Rightarrow> nat \<Rightarrow> string" where
  "next_link_of entries i =
     (if i < length entries - 1 then '' <a href='' @ DQ @ e_href (entries ! (i + 1)) @ DQ @ ''>N'' @ [CHR 0xC3, CHR 0xA4] @ ''chster '' @ [CHR 0xC2, CHR 0xBB] @ ''</a>'' else [])"

definition detail_page :: "entry list \<Rightarrow> nat \<Rightarrow> string \<times> string" where
  "detail_page entries i =
     (let m = entries ! i in
      (e_href m,
       ENTRY_TEMPLATE CSS (e_num m) (e_image m) (e_date m) (md_to_html (e_desc m))
         (prev_link_of entries i) (next_link_of entries i)))"

definition detail_pages :: "entry list \<Rightarrow> (string \<times> string) list" where
  "detail_pages entries = map (detail_page entries) [0..<length entries]"

text \<open>The index: the first line of the description, cut after 120 characters.\<close>

definition is_linebreak :: "char \<Rightarrow> bool" where
  "is_linebreak c = (c \<in> set [NL, CHR 0x0D, CHR 0x0B, CHR 0x0C, CHR 0x1C, CHR 0x1D, CHR 0x1E])"

definition card_of :: "entry \<Rightarrow> string" where
  "card_of m =
     (let preview0 = py_strip (if e_desc m \<noteq> [] then takeWhile (\<lambda>c. \<not> is_linebreak c) (e_desc m) else []);
          preview = (if 120 < length preview0 then take 120 preview0 @ [CHR 0xE2, CHR 0x80, CHR 0xA6] else preview0)
      in CARD_TEMPLATE (e_href m) (e_thumb m) (e_num m) (e_date m) (md_to_html preview))"

definition index_page :: "entry list \<Rightarrow> string \<times> string" where
  "index_page entries = (''index.html'', INDEX_TEMPLATE CSS (concat (map card_of entries)))"

text \<open>The QR codes: the text encoded for an entry and the file it is saved in.\<close>

definition qr_of :: "string \<Rightarrow> entry \<Rightarrow> string \<times> string" where
  "qr_of base m = (''assets/qrcodes/'' @ e_num m @ ''.png'', base @ ''/'' @ e_href m)"

definition site_fail :: "bool \<Rightarrow> (string \<times> nat) list \<Rightarrow> error \<Rightarrow> site_result" where
  "site_fail cl copies e = \<lparr>cleared = cl, assets = copies, pages = [], qrs = [], pdfs = [], err = Some e\<rparr>"

text \<open>
  \<open>main\<close> up to the end of the loop over the rows: the two checks, the removal of the old
  output folder, the detection of the columns, the loop. It gives whether the old folder
  was removed, the copies made, and the entries or the exception.
\<close>

definition read_entries :: "site_env \<Rightarrow> bool \<times> (string \<times> nat) list \<times> (error + entry list)" where
  "read_entries env =
     (case xlsx env of
        None \<Rightarrow> (False, [], Inl (FileNotFoundError ''entries.xlsx''))
      | Some df \<Rightarrow>
          (case images_dir env of
             None \<Rightarrow> (False, [], Inl (FileNotFoundError ''images''))
           | Some imgs \<Rightarrow>
               (case cols_ci (columns df) ''bildname'' of
                  None \<Rightarrow> (True, [], Inl ValueError)
                | Some col_img \<Rightarrow>
                    (let col_desc = py_or (cols_ci (columns df) ''beschreibung'') (cols_ci (columns df) ''text'');
                         col_date = find_date_column (columns df)
                     in (True, build_entries env imgs (columns df) col_img col_desc col_date 0 (cells df))))))"

text \<open>
  The rest of \<open>main\<close>: the detail pages, the index, and the QR codes when one of the three
  QR options is set; without a base URL that last step ends the run, the pages being
  written already.
\<close>

definition build_site :: "site_env \<Rightarrow> site_args \<Rightarrow> site_result" where
  "build_site env args =
     (case read_entries env of
        (cl, copies, Inl e) \<Rightarrow> site_fail cl copies e
      | (cl, copies, Inr entries) \<Rightarrow>
          (let html = detail_pages entries @ [index_page entries] in
           if make_qr args \<or> qrs_pdf args \<or> labels args
           then (case s_base_url args of
                   None \<Rightarrow> \<lparr>cleared = cl, assets = copies, pages = html, qrs = [], pdfs = [],
                             err = Some SystemExit\<rparr>
                 | Some base \<Rightarrow>
                     if base = []
                     then \<lparr>cleared = cl, assets = copies, pages = html, qrs = [], pdfs = [],
                           err = Some SystemExit\<rparr>
                     else \<lparr>cleared = cl, assets = copies, pages = html,
                           qrs = map (qr_of base) entries,
                           pdfs = (if qrs_pdf args then [''qrcodes.pdf''] else [])
                             @ (if labels args then [''qrcodes_labels.pdf''] else []),
                           err = None\<rparr>)
           else \<lparr>cleared = cl, assets = copies, pages = html, qrs = [], pdfs = [], err = None\<rparr>))"



subsection \<open>Relative links\<close>

text \<open>
  How a browser resolves the \<open>href\<close> of a link that is a relative path (RFC 3986,
  section 5.2, for references without scheme, host or query): the last segment of the path
  of the page is dropped, the segments of the reference are appended, and \<open>.\<close> and \<open>..\<close>
  are resolved from left to right. This is not code of the repository; it says which
  file of the site a link written into a page points to.
\<close>

fun split_on :: "char \<Rightarrow> string \<Rightarrow> string \<Rightarrow> string list" where
  "split_on sep cur [] = [rev cur]"
| "split_on sep cur (x # xs) = (if x = sep then rev cur # split_on sep [] xs else split_on sep (x # cur) xs)"

fun norm_segments :: "string list \<Rightarrow> string list \<Rightarrow> string list" where
  "norm_segments acc [] = rev acc"
| "norm_segments acc (s # ss) =
     (if s = ''..'' then norm_segments (tl acc) ss
      else if s = ''.'' then norm_segments acc ss
      else norm_segments (s # acc) ss)"

definition resolve_href :: "string \<Rightarrow> string \<Rightarrow> string" where
  "resolve_href page href =
     py_join ''/'' (norm_segments [] (butlast (split_on CHR ''/'' [] page) @ split_on CHR ''/'' [] href))"

section \<open>The order of the date sources, as the specification words it\<close>

text \<open>
  The specification gives the timestamp of an image file as the first available source in
  the order file name, EXIF, system metadata, modification time. The definitions of this
  section follow those words; they are compared with \<open>resolve_dt\<close> below. A source is
  available when its function returns a date; the system metadata are the \<open>mdls\<close> date
  and then a birth time that is present and not zero.
\<close>

fun first_some :: "'a option list \<Rightarrow> 'a option" where
  "first_some [] = None"
| "first_some (None # xs) = first_some xs"
| "first_some (Some x # xs) = Some x"

definition filename_date :: "path \<Rightarrow> datetime option" where
  "filename_date p = (case datetime_from_filename p of Inl e \<Rightarrow> None | Inr a \<Rightarrow> a)"

definition birth_date :: "platform \<Rightarrow> image_file \<Rightarrow> datetime option" where
  "birth_date pf f =
     (case st_birthtime f of
        None \<Rightarrow> None
      | Some bt \<Rightarrow> if bt = 0 then None else Some (fromtimestamp (utc_offset pf) bt))"

definition spec_timestamp :: "platform \<Rightarrow> path \<times> image_file \<Rightarrow> datetime" where
  "spec_timestamp pf x =
     (case first_some [filename_date (fst x), extract_exif_datetime (snd x),
                       mdls_creation_datetime pf (snd x), birth_date pf (snd x)] of
        Some d \<Rightarrow> d
      | None \<Rightarrow> fromtimestamp (utc_offset pf) (st_mtime (snd x)))"

section \<open>Example inputs\<close>

text \<open>
  Concrete files, folders and spreadsheets on which the theorems below are instantiated.
  \<open>photo\<close> is a decodable picture without EXIF data; \<open>exif_photo\<close> carries the EXIF tag
  DateTimeOriginal 2020-05-17 10:30:00 and was last modified on 2023-11-14 (UTC).
\<close>

definition photo :: "int \<Rightarrow> nat \<Rightarrow> image_file" where
  "photo mt px = \<lparr>exif = None, mdls_out = None, st_birthtime = None, st_mtime = mt, pixels = Some px\<rparr>"

definition exif_photo :: image_file where
  "exif_photo = \<lparr>exif = Some [(36867, ''2020:05:17 10:30:00'')], mdls_out = None, st_birthtime = None,
                  st_mtime = 1700000000, pixels = Some 7\<rparr>"

definition utc :: platform where
  "utc = \<lparr>darwin = False, utc_offset = 0, strptime = (\<lambda>s. None)\<rparr>"

definition shoot_files :: "(path \<times> image_file) list" where
  "shoot_files = [((''d'', ''b.png''), exif_photo), ((''d'', ''2019-03-02_080910.jpg''), photo 86399 1),
                  ((''d'', ''notes.txt''), photo 5 2), ((''d'', ''c.jpeg''), photo 86399 3)]"

definition burst_disk :: "(path \<times> image_file) list" where
  "burst_disk = [((''d'', ''a.png''), photo 86399 1), ((''d'', ''b.png''), photo 86399 2)]"

definition album :: sheet where
  "album = \<lparr>columns = [''Bildname'', ''Beschreibung''],
            cells = [ [Txt ''a.jpg'', Txt ''At the lake''], [Txt ''b.jpg'', NaN] ]\<rparr>"

definition album_env :: "int \<Rightarrow> (string \<times> string) list \<Rightarrow> site_env" where
  "album_env tz old =
     \<lparr>xlsx = Some album, images_dir = Some [(''a.jpg'', exif_photo), (''b.jpg'', photo 86399 2)],
      out_before = old, tz_offset = tz, to_datetime = (\<lambda>c. None)\<rparr>"

definition broken_env :: site_env where
  "broken_env =
     \<lparr>xlsx = Some \<lparr>columns = [''Bildname''], cells = [ [Txt ''a.jpg''], [Txt ''missing.jpg''] ]\<rparr>,
      images_dir = Some [(''a.jpg'', \<lparr>exif = None, mdls_out = None, st_birthtime = None, st_mtime = 0, pixels = None\<rparr>)],
      out_before = [], tz_offset = 0, to_datetime = (\<lambda>c. None)\<rparr>"

definition qr_args :: site_args where
  "qr_args = \<lparr>s_base_url = Some ''https://example.org'', make_qr = True, qrs_pdf = False, labels = False\<rparr>"

text \<open>The items, options and rows of the folder \<open>shoot_files\<close>.\<close>

definition shoot_items :: "((path \<times> image_file) \<times> datetime) list" where
  "shoot_items =
     [(((''d'', ''b.png''), exif_photo),
       \<lparr>dt_year = 2020, dt_month = 5, dt_day = 17, dt_hour = 10, dt_minute = 30, dt_second = 0\<rparr>),
      (((''d'', ''2019-03-02_080910.jpg''), photo 86399 1),
       \<lparr>dt_year = 2019, dt_month = 3, dt_day = 2, dt_hour = 8, dt_minute = 9, dt_second = 10\<rparr>),
      (((''d'', ''c.jpeg''), photo 86399 3),
       \<lparr>dt_year = 1970, dt_month = 1, dt_day = 1, dt_hour = 23, dt_minute = 59, dt_second = 59\<rparr>)]"

definition shoot_args :: excel_args where
  "shoot_args = \<lparr>x_base_url = Some ''https://example.org'', desc_from_name = False\<rparr>"

definition shoot_rows :: "xrow list" where
  "shoot_rows =
     [\<lparr>row_id = ''001'', bildname = ''c.jpeg'', datum = ''1970-01-01 23:59:59'', beschreibung = [],
       link = ''https://example.org/e/001.html''\<rparr>,
      \<lparr>row_id = ''002'', bildname = ''2019-03-02_080910.jpg'', datum = ''2019-03-02 08:09:10'', beschreibung = [],
       link = ''https://example.org/e/002.html''\<rparr>,
      \<lparr>row_id = ''003'', bildname = ''b.png'', datum = ''2020-05-17 10:30:00'', beschreibung = [],
       link = ''https://example.org/e/003.html''\<rparr>]"

text \<open>The copies and entries of the album, read in UTC.\<close>

definition album_copies :: "(string \<times> nat) list" where
  "album_copies = [(''assets/images/a.jpg'', 7), (''assets/thumbs/a.jpg'', 7),
                   (''assets/images/b.jpg'', 2), (''assets/thumbs/b.jpg'', 2)]"

definition album_entries :: "entry list" where
  "album_entries =
     [\<lparr>e_num = ''001'', e_image = ''a.jpg'', e_thumb = ''assets/thumbs/a.jpg'', e_href = ''e/001.html'',
       e_date = ''14.11.2023'', e_desc = ''At the lake''\<rparr>,
      \<lparr>e_num = ''002'', e_image = ''b.jpg'', e_thumb = ''assets/thumbs/b.jpg'', e_href = ''e/002.html'',
       e_date = ''01.01.1970'', e_desc = []\<rparr>]"

text \<open>A spreadsheet whose second row names a picture that is not in the folder.\<close>

definition gap_sheet :: sheet where
  "gap_sheet = \<lparr>columns = [''Bildname''], cells = [ [Txt ''b.jpg''], [Txt ''missing.jpg''] ]\<rparr>"

definition gap_env :: site_env where
  "gap_env =
     \<lparr>xlsx = Some gap_sheet, images_dir = Some [(''b.jpg'', photo 86399 2)],
      out_before = [], tz_offset = 0, to_datetime = (\<lambda>c. None)\<rparr>"

text \<open>
  A folder whose only picture has a name that matches the date pattern with digits that
  are no calendar date (30 February), and carries an EXIF date.
\<close>

definition feb30_files :: "(path \<times> image_file) list" where
  "feb30_files = [((''d'', ''2020-02-30_120000.jpg''), exif_photo)]"



text \<open>
  The text of the second detail page of the album, as the run in UTC writes it, up to the
  end of the link back to the index.
\<close>

definition album_page_2_head :: string where
  "album_page_2_head =
     ''<!doctype html><html lang='' @ DQ @ ''de'' @ DQ @ ''><head><meta charset='' @ DQ
       @ ''utf-8'' @ DQ @ ''/><meta name='' @ DQ @ ''viewport'' @ DQ @ '' content='' @ DQ
       @ ''width=device-width, initial-scale=1'' @ DQ @ ''/><title>Eintrag 002</title><style>'' @ CSS
       @ ''</style></head><body><header class='' @ DQ @ ''site-header'' @ DQ @ ''><a href='' @ DQ
       @ ''../index.html'' @ DQ @ '' class='' @ DQ @ ''brand'' @ DQ @ ''>''
       @ [CHR 0xF0, CHR 0x9F, CHR 0x8E, CHR 0x81] @ '' QR'' @ [CHR 0xE2, CHR 0x80, CHR 0x91]
       @ ''Geschenk</a></header><main><article class='' @ DQ @ ''entry'' @ DQ @ ''><div class='' @ DQ
       @ ''entry-card'' @ DQ @ ''><figure class='' @ DQ @ ''entry-figure'' @ DQ @ ''><img src='' @ DQ
       @ ''../assets/images/b.jpg'' @ DQ @ '' alt='' @ DQ @ DQ @ ''></figure><div class='' @ DQ
       @ ''entry-meta'' @ DQ @ ''>01.01.1970</div><div class='' @ DQ @ ''entry-text'' @ DQ
       @ ''></div></div><nav class='' @ DQ @ ''entry-nav'' @ DQ @ ''><a href='' @ DQ
       @ ''../index.html'' @ DQ @ ''>'' @ [CHR 0xE2, CHR 0x86, CHR 0x90] @ '' Zur''
       @ [CHR 0xC3, CHR 0xBC] @ ''ck zur '' @ [CHR 0xC3, CHR 0x9C] @ ''bersicht</a>''"


section \<open>Decimal numerals\<close>

lemma digit_cases:
  assumes "0 \<le> d" and "d < 10"
  shows "d = 0 \<or> d = 1 \<or> d = 2 \<or> d = 3 \<or> d = 4 \<or> d = 5 \<or> d = 6 \<or> d = 7 \<or> d = 8 \<or> d = (9::int)"
  using assms by arith

lemma digit_char_is_digit: "0 \<le> d \<Longrightarrow> d < 10 \<Longrightarrow> is_digit (digit_char (nat d))"
  using digit_cases [of d] by (auto simp: is_digit_def digit_char_def)

lemma digit_val_digit_char: "0 \<le> d \<Longrightarrow> d < 10 \<Longrightarrow> digit_val (digit_char (nat d)) = d"
  using digit_cases [of d] by (auto simp: digit_val_def digit_char_def)

lemma str_pos_nonempty: "str_pos n \<noteq> []"
  by (subst str_pos.simps) simp

lemma str_pos_digits: "0 \<le> n \<Longrightarrow> list_all is_digit (str_pos n)"
proof (induction n rule: str_pos.induct)
  case (1 n)
  show ?case
  proof (cases "n < 10")
    case True
    with 1(2) show ?thesis by (subst str_pos.simps) (simp add: digit_char_is_digit)
  next
    case False
    with 1 show ?thesis by (subst str_pos.simps) (simp add: digit_char_is_digit)
  qed
qed

lemma str_pos_value: "0 \<le> n \<Longrightarrow> foldl (\<lambda>acc c. 10 * acc + digit_val c) 0 (str_pos n) = n"
proof (induction n rule: str_pos.induct)
  case (1 n)
  show ?case
  proof (cases "n < 10")
    case True
    with 1(2) show ?thesis by (subst str_pos.simps) (simp add: digit_val_digit_char)
  next
    case False
    with 1 show ?thesis by (subst str_pos.simps) (simp add: digit_val_digit_char)
  qed
qed

lemma length_str_pos_mono: "0 \<le> i \<Longrightarrow> i \<le> n \<Longrightarrow> length (str_pos i) \<le> length (str_pos n)"
proof (induction n arbitrary: i rule: str_pos.induct)
  case (1 n)
  show ?case
  proof (cases "n < 10")
    case True
    with 1(3) have "i < 10" by simp
    with True show ?thesis by (simp add: str_pos.simps [of i] str_pos.simps [of n])
  next
    case False
    show ?thesis
    proof (cases "i < 10")
      case True
      with False show ?thesis by (simp add: str_pos.simps [of i] str_pos.simps [of n])
    next
      case F2: False
      from 1(3) have le: "i div 10 \<le> n div 10" by (simp add: zdiv_mono1)
      from 1(2) have "0 \<le> i div 10" by simp
      from 1(1) [OF False this le] have "length (str_pos (i div 10)) \<le> length (str_pos (n div 10))" .
      with False F2 show ?thesis by (simp add: str_pos.simps [of i] str_pos.simps [of n])
    qed
  qed
qed

lemma str_nat_nonempty: "str_nat n \<noteq> []"
  by (simp add: str_nat_def str_pos_nonempty)

lemma str_nat_digits: "list_all is_digit (str_nat n)"
  by (simp add: str_nat_def str_pos_digits)

lemma py_int_str_nat: "py_int (str_nat n) = Some (int n)"
  by (simp add: py_int_def str_nat_nonempty str_nat_digits) (simp add: str_nat_def str_pos_value)

lemma str_nat_hd_not_sign: "\<exists>c cs. str_nat n = c # cs \<and> c \<noteq> CHR ''+'' \<and> c \<noteq> CHR ''-''"
proof -
  have "list_all is_digit (str_nat n)" by (rule str_nat_digits)
  moreover obtain c cs where "str_nat n = c # cs"
    using str_nat_nonempty [of n] by (cases "str_nat n") auto
  ultimately show ?thesis by (auto simp: is_digit_def)
qed

lemma zfill_str_nat: "zfill w (str_nat n) = replicate (w - length (str_nat n)) CHR ''0'' @ str_nat n"
  using str_nat_hd_not_sign [of n] by (auto simp: zfill_def)

lemma length_zfill_str_nat: "length (zfill w (str_nat n)) = max w (length (str_nat n))"
  by (simp add: zfill_str_nat)

lemma digit_val_zero: "digit_val CHR ''0'' = 0"
  by (simp add: digit_val_def)

lemma is_digit_zero: "is_digit CHR ''0''"
  by (simp add: is_digit_def)

lemma foldl_leading_zeros:
  "foldl (\<lambda>acc c. 10 * acc + digit_val c) 0 (replicate k CHR ''0'' @ s) = foldl (\<lambda>acc c. 10 * acc + digit_val c) 0 s"
  by (induction k) (simp_all add: digit_val_zero)

lemma py_int_zfill_str_nat: "py_int (zfill w (str_nat n)) = Some (int n)"
proof -
  have "list_all is_digit (replicate (w - length (str_nat n)) CHR ''0'' @ str_nat n)"
    using str_nat_digits [of n] by (auto simp: list_all_iff is_digit_zero)
  moreover have "foldl (\<lambda>acc c. 10 * acc + digit_val c) 0 (str_nat n) = int n"
    by (simp add: str_nat_def str_pos_value)
  ultimately show ?thesis
    by (simp add: py_int_def zfill_str_nat str_nat_nonempty foldl_leading_zeros del: foldl_append)
qed

lemma length_str_nat_mono: "i \<le> n \<Longrightarrow> length (str_nat i) \<le> length (str_nat n)"
  by (simp add: str_nat_def length_str_pos_mono)


section \<open>IDs of build_excel_from_images\<close>

lemma length_sort_items: "length (sort_items items) = length items"
  by (simp add: sort_items_def)

lemma row_ids_build_rows:
  "map row_id (build_rows args items) =
     map (\<lambda>i. zfill (id_pad (length items)) (str_nat i)) [1..<Suc (length items)]"
proof -
  let ?its = "sort_items items"
  let ?pad = "id_pad (length items)"
  have len: "length [1..<Suc (length items)] = length ?its"
    by (simp add: length_sort_items del: upt_Suc)
  have "map row_id (build_rows args items)
          = map (\<lambda>x. zfill ?pad (str_nat (fst x))) (zip [1..<Suc (length items)] ?its)"
    by (simp add: build_rows_def Let_def length_sort_items mk_row_def case_prod_beta del: upt_Suc)
  also have "\<dots> = map (\<lambda>i. zfill ?pad (str_nat i)) (map fst (zip [1..<Suc (length items)] ?its))"
    by (simp add: comp_def)
  also have "map fst (zip [1..<Suc (length items)] ?its) = [1..<Suc (length items)]"
    using len by (rule map_fst_zip)
  finally show ?thesis .
qed

lemma nth_build_rows:
  assumes "i < length items"
  shows "build_rows args items ! i = mk_row args (id_pad (length items)) (Suc i) (sort_items items ! i)"
proof -
  have "i < length (zip [1..<Suc (length items)] (sort_items items))"
    using assms by (simp add: length_sort_items del: upt_Suc)
  then show ?thesis
    using assms by (simp add: build_rows_def Let_def length_sort_items del: upt_Suc)
qed

lemma length_build_rows: "length (build_rows args items) = length items"
  by (simp add: build_rows_def Let_def length_sort_items del: upt_Suc)

lemma id_width:
  assumes "i \<le> n"
  shows "length (zfill (id_pad n) (str_nat i)) = id_pad n"
proof -
  have "length (str_nat i) \<le> length (str_nat n)" using assms by (rule length_str_nat_mono)
  then show ?thesis by (simp add: length_zfill_str_nat id_pad_def)
qed

lemma row_ids_values:
  "map (\<lambda>r. py_int (row_id r)) (build_rows args items) = map (\<lambda>i. Some (int i)) [1..<Suc (length items)]"
proof -
  have "map (\<lambda>r. py_int (row_id r)) (build_rows args items)
          = map py_int (map row_id (build_rows args items))"
    by (simp add: comp_def)
  also have "\<dots> = map (\<lambda>i. Some (int i)) [1..<Suc (length items)]"
    by (simp add: row_ids_build_rows py_int_zfill_str_nat comp_def)
  finally show ?thesis .
qed

lemma row_ids_distinct: "distinct (map row_id (build_rows args items))"
proof -
  have "map py_int (map row_id (build_rows args items)) = map (\<lambda>i. Some (int i)) [1..<Suc (length items)]"
    using row_ids_values [of args items] by (simp add: comp_def del: upt_Suc)
  moreover have "distinct (map (\<lambda>i. Some (int i)) [1..<Suc (length items)])"
    by (simp add: distinct_map inj_on_def del: upt_Suc)
  ultimately have "distinct (map py_int (map row_id (build_rows args items)))"
    by (simp only:)
  then show ?thesis by (metis distinct_map)
qed

lemma row_ids_width:
  assumes "r \<in> set (build_rows args items)"
  shows "length (row_id r) = max 3 (length (str_nat (length items)))"
proof -
  from assms have "row_id r \<in> set (map row_id (build_rows args items))" by simp
  then have "row_id r \<in> (\<lambda>i. zfill (id_pad (length items)) (str_nat i)) ` set [1..<Suc (length items)]"
    by (simp only: row_ids_build_rows set_map)
  then obtain i where i: "i \<in> set [1..<Suc (length items)]"
      and eq: "row_id r = zfill (id_pad (length items)) (str_nat i)"
    by blast
  from i have "i \<in> {1..<Suc (length items)}" by (simp only: set_upt)
  then have "i \<le> length items" by simp
  then show ?thesis
    using id_width [of i "length items"] eq by (simp add: id_pad_def)
qed

lemma excel_main_rows:
  assumes "collect_items pf (iter_images files) = Inr items"
  shows "excel_main pf args files = Inr (build_rows args items)"
  using assms by (simp add: excel_main_def build_rows_def sort_items_def)

text \<open>
  Claim C2. For the \<open>n\<close> scanned images the IDs are pairwise distinct, all of the width
  \<open>max 3 (digits of n)\<close>, they read as the integers \<open>1..n\<close>, and row \<open>i\<close> carries the
  \<open>i\<close>-th item of the list sorted by timestamp, so the IDs grow with the sort key.
\<close>

theorem excel_ids_unique_padded_monotonic:
  assumes "collect_items pf (iter_images files) = Inr items"
    and "excel_main pf args files = Inr rows"
  shows "length rows = length items
    \<and> distinct (map row_id rows)
    \<and> (\<forall>r \<in> set rows. length (row_id r) = max 3 (length (str_nat (length items))))
    \<and> map (\<lambda>r. py_int (row_id r)) rows = map (\<lambda>i. Some (int i)) [1..<Suc (length items)]
    \<and> mset (sort_items items) = mset items
    \<and> sorted (map (\<lambda>x. dt_key (snd x)) (sort_items items))
    \<and> (\<forall>i < length items. rows ! i = mk_row args (max 3 (length (str_nat (length items)))) (Suc i) (sort_items items ! i))"
proof -
  have rows: "rows = build_rows args items"
    using assms excel_main_rows [of pf files items args] by simp
  have "mset (sort_items items) = mset items" by (simp add: sort_items_def)
  moreover have "sorted (map (\<lambda>x. dt_key (snd x)) (sort_items items))"
    by (simp add: sort_items_def)
  moreover have "\<forall>i < length items. rows ! i = mk_row args (max 3 (length (str_nat (length items)))) (Suc i) (sort_items items ! i)"
    using nth_build_rows [of _ items args] by (simp add: rows id_pad_def)
  ultimately show ?thesis
    using row_ids_distinct [of args items] row_ids_values [of args items]
      row_ids_width [of _ args items] length_build_rows [of args items]
    by (simp add: rows)
qed

section \<open>Order of the date sources\<close>

lemma resolve_dt_spec:
  assumes "resolve_dt pf x = Inr dt"
  shows "dt = spec_timestamp pf x"
  using assms
  by (auto simp: resolve_dt_def spec_timestamp_def filename_date_def birth_date_def py_or_def
      fs_birth_or_mtime_def split: sum.splits option.splits if_splits)

lemma resolve_dt_error:
  "(\<exists>e. resolve_dt pf x = Inl e) \<longleftrightarrow> datetime_from_filename (fst x) = Inl ValueError"
  by (auto simp: resolve_dt_def datetime_from_filename_def split: sum.splits option.splits)

lemma collect_items_spec:
  assumes "collect_items pf xs = Inr items"
  shows "map fst items = xs \<and> (\<forall>it \<in> set items. snd it = spec_timestamp pf (fst it))"
  using assms
proof (induction xs arbitrary: items)
  case Nil
  then show ?case by simp
next
  case (Cons x xs)
  from Cons.prems obtain dt its where r: "resolve_dt pf x = Inr dt"
      and c: "collect_items pf xs = Inr its" and i: "items = (x, dt) # its"
    by (auto split: sum.splits)
  from Cons.IH [OF c] have "map fst its = xs" and "\<forall>it \<in> set its. snd it = spec_timestamp pf (fst it)"
    by simp_all
  moreover from r have "dt = spec_timestamp pf x" by (rule resolve_dt_spec)
  ultimately show ?case using i by simp
qed

section \<open>Entries of build_site\<close>

lemma build_entries_cons_ok:
  assumes "build_entries env imgs cols col_img col_desc col_date idx (row # rows) = (copies, Inr entries)"
  shows "\<exists>m ms c1 c2. entries = m # ms \<and> copies = c1 @ c2
      \<and> build_entries env imgs cols col_img col_desc col_date (idx + 1) rows = (c2, Inr ms)
      \<and> e_num m = zfill 3 (str_nat (idx + 1))
      \<and> e_href m = ''e/'' @ zfill 3 (str_nat (idx + 1)) @ ''.html''
      \<and> e_image m = py_strip (py_str_cell (cell_at cols row col_img))
      \<and> map_of imgs (e_image m) \<noteq> None"
  using assms
  by (auto simp: Let_def split: option.splits sum.splits prod.splits)

lemma build_entries_nums:
  assumes "build_entries env imgs cols col_img col_desc col_date idx rows = (copies, Inr entries)"
  shows "length entries = length rows
    \<and> (\<forall>k < length rows. e_num (entries ! k) = zfill 3 (str_nat (idx + k + 1))
          \<and> e_href (entries ! k) = ''e/'' @ zfill 3 (str_nat (idx + k + 1)) @ ''.html'')"
  using assms
proof (induction rows arbitrary: idx copies entries)
  case Nil
  then show ?case by simp
next
  case (Cons row rows)
  from build_entries_cons_ok [OF Cons.prems]
  obtain m ms c1 c2 where e: "entries = m # ms"
    and b: "build_entries env imgs cols col_img col_desc col_date (idx + 1) rows = (c2, Inr ms)"
    and n: "e_num m = zfill 3 (str_nat (idx + 1))"
    and h: "e_href m = ''e/'' @ zfill 3 (str_nat (idx + 1)) @ ''.html''"
    by blast
  from Cons.IH [OF b] have len: "length ms = length rows"
    and rest: "\<forall>k < length rows. e_num (ms ! k) = zfill 3 (str_nat (idx + 1 + k + 1))
          \<and> e_href (ms ! k) = ''e/'' @ zfill 3 (str_nat (idx + 1 + k + 1)) @ ''.html''"
    by simp_all
  show ?case
  proof (intro conjI allI impI)
    show "length entries = length (row # rows)" using e len by simp
  next
    fix k assume "k < length (row # rows)"
    then show "e_num (entries ! k) = zfill 3 (str_nat (idx + k + 1))"
      using e n rest by (cases k) simp_all
  next
    fix k assume "k < length (row # rows)"
    then show "e_href (entries ! k) = ''e/'' @ zfill 3 (str_nat (idx + k + 1)) @ ''.html''"
      using e h rest by (cases k) simp_all
  qed
qed

lemma read_entries_ok:
  assumes "read_entries env = (cl, copies, Inr entries)"
  shows "\<exists>df imgs col_img. xlsx env = Some df \<and> images_dir env = Some imgs
      \<and> cols_ci (columns df) ''bildname'' = Some col_img \<and> cl
      \<and> build_entries env imgs (columns df) col_img
            (py_or (cols_ci (columns df) ''beschreibung'') (cols_ci (columns df) ''text''))
            (find_date_column (columns df)) 0 (cells df) = (copies, Inr entries)"
  using assms
  by (auto simp: read_entries_def Let_def split: option.splits)

lemma read_entries_nums:
  assumes "read_entries env = (cl, copies, Inr entries)" and "xlsx env = Some df"
  shows "length entries = length (cells df)"
    and "k < length entries \<Longrightarrow> e_num (entries ! k) = zfill 3 (str_nat (Suc k))"
    and "k < length entries \<Longrightarrow> e_href (entries ! k) = ''e/'' @ zfill 3 (str_nat (Suc k)) @ ''.html''"
proof -
  from read_entries_ok [OF assms(1)] assms(2)
  obtain imgs col_img where
    b: "build_entries env imgs (columns df) col_img
            (py_or (cols_ci (columns df) ''beschreibung'') (cols_ci (columns df) ''text''))
            (find_date_column (columns df)) 0 (cells df) = (copies, Inr entries)"
    by auto
  from build_entries_nums [OF b] show "length entries = length (cells df)" by simp
  from build_entries_nums [OF b]
  show "k < length entries \<Longrightarrow> e_num (entries ! k) = zfill 3 (str_nat (Suc k))" by simp
  from build_entries_nums [OF b]
  show "k < length entries \<Longrightarrow> e_href (entries ! k) = ''e/'' @ zfill 3 (str_nat (Suc k)) @ ''.html''" by simp
qed

lemma build_site_pages:
  assumes "read_entries env = (cl, copies, Inr entries)"
  shows "pages (build_site env args) = detail_pages entries @ [index_page entries]"
  using assms by (simp add: build_site_def Let_def split: option.splits)

lemma build_site_qrs:
  assumes "read_entries env = (cl, copies, Inr entries)"
    and "make_qr args \<or> qrs_pdf args \<or> labels args"
    and "s_base_url args = Some base" and "base \<noteq> []"
  shows "qrs (build_site env args) = map (qr_of base) entries \<and> err (build_site env args) = None"
  using assms by (simp add: build_site_def Let_def)



lemma e_nums_distinct:
  assumes "read_entries env = (cl, copies, Inr entries)"
  shows "distinct (map e_num entries)"
proof -
  from read_entries_ok [OF assms] obtain df where df: "xlsx env = Some df" by blast
  have "map py_int (map e_num entries) = map (\<lambda>i. Some (int i)) [1..<Suc (length entries)]"
    by (rule nth_equalityI)
       (simp_all add: read_entries_nums(2) [OF assms df] py_int_zfill_str_nat del: upt_Suc)
  moreover have "distinct (map (\<lambda>i. Some (int i)) [1..<Suc (length entries)])"
    by (simp add: distinct_map inj_on_def del: upt_Suc)
  ultimately have "distinct (map py_int (map e_num entries))" by (simp only:)
  then show ?thesis by (metis distinct_map)
qed

text \<open>
  Claim C5. With a QR option set and a base URL given, \<open>build_site\<close> makes one QR code for
  every row, each in a file of its own, and the text it encodes is the base URL followed
  by \<open>/e/\<close>, the number of the row and \<open>.html\<close>: the address of that row's detail page.
\<close>

theorem qr_codes_link_detail_pages:
  assumes "read_entries env = (cl, copies, Inr entries)"
    and "make_qr args \<or> qrs_pdf args \<or> labels args"
    and "s_base_url args = Some base" and "base \<noteq> []"
  shows "qrs (build_site env args)
      = map (\<lambda>m. (''assets/qrcodes/'' @ e_num m @ ''.png'', base @ ''/e/'' @ e_num m @ ''.html'')) entries
    \<and> (\<forall>df. xlsx env = Some df \<longrightarrow> length (qrs (build_site env args)) = length (cells df))
    \<and> (\<forall>k < length entries. e_num (entries ! k) = zfill 3 (str_nat (Suc k))
          \<and> snd (qrs (build_site env args) ! k) = base @ ''/'' @ fst (pages (build_site env args) ! k))
    \<and> distinct (map fst (qrs (build_site env args)))"
proof -
  from read_entries_ok [OF assms(1)] obtain df where df: "xlsx env = Some df" by blast
  have q: "qrs (build_site env args) = map (qr_of base) entries"
    using build_site_qrs [OF assms] by simp
  have hrefs: "e_href (entries ! k) = ''e/'' @ e_num (entries ! k) @ ''.html''" if "k < length entries" for k
    using read_entries_nums(2,3) [OF assms(1) df that] by simp
  have 1: "qrs (build_site env args)
      = map (\<lambda>m. (''assets/qrcodes/'' @ e_num m @ ''.png'', base @ ''/e/'' @ e_num m @ ''.html'')) entries"
    unfolding q by (rule nth_equalityI) (simp_all add: qr_of_def hrefs)
  have 2: "\<forall>df. xlsx env = Some df \<longrightarrow> length (qrs (build_site env args)) = length (cells df)"
    using read_entries_nums(1) [OF assms(1)] by (simp add: q)
  have p: "pages (build_site env args) = detail_pages entries @ [index_page entries]"
    using assms(1) by (rule build_site_pages)
  have 3: "\<forall>k < length entries. e_num (entries ! k) = zfill 3 (str_nat (Suc k))
          \<and> snd (qrs (build_site env args) ! k) = base @ ''/'' @ fst (pages (build_site env args) ! k)"
    using read_entries_nums(2) [OF assms(1) df]
    by (simp add: q p qr_of_def detail_pages_def detail_page_def Let_def nth_append)
  have "map fst (qrs (build_site env args)) = map (\<lambda>s. ''assets/qrcodes/'' @ s @ ''.png'') (map e_num entries)"
    by (simp add: q qr_of_def comp_def)
  moreover have "distinct (map (\<lambda>s. ''assets/qrcodes/'' @ s @ ''.png'') (map e_num entries))"
    using e_nums_distinct [OF assms(1)] by (simp add: distinct_map inj_on_def)
  ultimately have 4: "distinct (map fst (qrs (build_site env args)))" by simp
  from 1 2 3 4 show ?thesis by blast
qed

section \<open>The EXIF pattern of build_site\<close>

lemma re_match_literal_head:
  assumes "re_match ((True, P (Lit c0) Once # qs) # segs) s = Some (gs, r)"
  shows "\<exists>t rest. gs = (c0 # t) # rest"
proof -
  from assms obtain ts where
    m: "rmatch (P (Lit c0) Once # (qs @ concat (map snd segs))) s = Some (ts, r)"
    and g: "gs = groups_of ((True, P (Lit c0) Once # qs) # segs) ts"
    by (auto simp: re_match_def pieces_of_def)
  from m obtain ts' where "ts = [c0] # ts'"
    by (cases s) (auto split: if_splits)
  with g show ?thesis by simp
qed

lemma re_search_is_match:
  assumes "re_search rx s = Some gs"
  shows "\<exists>s' r. re_match rx s' = Some (gs, r)"
  using assms
proof (induction s)
  case Nil
  then obtain b where "re_match rx [] = Some (gs, b)"
    by (cases "re_match rx []") auto
  then show ?case by blast
next
  case (Cons c cs)
  show ?case
  proof (cases "re_match rx (c # cs)")
    case None
    with Cons show ?thesis by simp
  next
    case (Some a)
    with Cons.prems have "re_match rx (c # cs) = Some (gs, snd a)"
      by (cases a) simp
    then show ?thesis by blast
  qed
qed

lemma py_int_backslash: "py_int (BSL # t) = None"
  by (simp add: py_int_def is_digit_def BSL_def)

lemma datetime_of_groups_backslash: "datetime_of_groups ((BSL # t) # rest) = None"
  by (simp add: datetime_of_groups_def py_int_backslash)

lemma site_date_re_groups:
  assumes "re_search SITE_DATE_RE raw = Some gs"
  shows "datetime_of_groups gs = None"
proof -
  from re_search_is_match [OF assms] obtain s' r where "re_match SITE_DATE_RE s' = Some (gs, r)"
    by blast
  then obtain t rest where "gs = (BSL # t) # rest"
    unfolding SITE_DATE_RE_def by (blast dest: re_match_literal_head)
  then show ?thesis by (simp add: datetime_of_groups_backslash)
qed

lemma site_exif_scan_none: "site_exif_scan ex ts = None"
  by (induction ts) (auto split: option.splits dest: site_date_re_groups)

lemma exif_datetime_none: "exif_datetime f = None"
  by (simp add: exif_datetime_def site_exif_scan_none split: option.splits)

lemma row_date_without_cell:
  "row_date env cols None row f = Inr (fromtimestamp (tz_offset env) (st_mtime f))"
  by (simp add: row_date_def exif_datetime_none)

section \<open>Missing pictures\<close>

lemma build_entries_ok_all_exist:
  assumes "build_entries env imgs cols col_img col_desc col_date idx rows = (copies, Inr entries)"
  shows "\<forall>row \<in> set rows. map_of imgs (py_strip (py_str_cell (cell_at cols row col_img))) \<noteq> None"
  using assms
proof (induction rows arbitrary: idx copies entries)
  case Nil
  then show ?case by simp
next
  case (Cons row rows)
  from build_entries_cons_ok [OF Cons.prems]
  obtain m ms c1 c2 where "entries = m # ms" and "copies = c1 @ c2"
    and b: "build_entries env imgs cols col_img col_desc col_date (idx + 1) rows = (c2, Inr ms)"
    and "e_num m = zfill 3 (str_nat (idx + 1))"
    and "e_href m = ''e/'' @ zfill 3 (str_nat (idx + 1)) @ ''.html''"
    and i: "e_image m = py_strip (py_str_cell (cell_at cols row col_img))"
    and x: "map_of imgs (e_image m) \<noteq> None"
    by blast
  from Cons.IH [OF b] i x show ?case by simp
qed

lemma build_entries_first_missing:
  assumes "build_entries env imgs cols col_img col_desc col_date idx pre = (c, Inr es)"
    and "map_of imgs (py_strip (py_str_cell (cell_at cols row col_img))) = None"
  shows "build_entries env imgs cols col_img col_desc col_date idx (pre @ row # post)
      = (c, Inl (FileNotFoundError (py_strip (py_str_cell (cell_at cols row col_img)))))"
  using assms(1)
proof (induction pre arbitrary: idx c es)
  case Nil
  then show ?case using assms(2) by (simp add: Let_def)
next
  case (Cons r pre)
  from build_entries_cons_ok [OF Cons.prems]
  obtain m ms c1 c2 where "es = m # ms"
    and b: "build_entries env imgs cols col_img col_desc col_date (idx + 1) pre = (c2, Inr ms)"
    by blast
  note ih = Cons.IH [OF b]
  from Cons.prems b ih show ?case
    by (auto simp: Let_def split: option.splits sum.splits prod.splits)
qed

lemma build_site_failed:
  assumes "read_entries env = (cl, copies, Inl e)"
  shows "err (build_site env args) = Some e \<and> pages (build_site env args) = []"
  using assms by (simp add: build_site_def site_fail_def)

lemma build_site_pages_nonempty:
  assumes "pages (build_site env args) \<noteq> []"
  shows "\<exists>cl copies entries. read_entries env = (cl, copies, Inr entries)"
proof -
  obtain cl copies r where r: "read_entries env = (cl, copies, r)" by (cases "read_entries env") auto
  show ?thesis
  proof (cases r)
    case (Inl e)
    with r assms build_site_failed [of env cl copies e args] show ?thesis by simp
  next
    case (Inr entries)
    with r show ?thesis by blast
  qed
qed

text \<open>
  Claim C4, amended. When a row names a picture that is not in the images folder,
  \<open>build_site\<close> ends with an exception and writes neither the index nor a detail page;
  pages are written only when the picture of every row exists. The exception is the
  \<open>FileNotFoundError\<close> of the first such row when all rows before it were processed
  without an exception.
\<close>

theorem missing_image_stops_before_pages:
  assumes "xlsx env = Some df" and "images_dir env = Some imgs"
    and "cols_ci (columns df) ''bildname'' = Some col_img"
  shows "((\<exists>row \<in> set (cells df). map_of imgs (py_strip (py_str_cell (cell_at (columns df) row col_img))) = None)
            \<longrightarrow> err (build_site env args) \<noteq> None \<and> pages (build_site env args) = [])
    \<and> (pages (build_site env args) \<noteq> []
            \<longrightarrow> (\<forall>row \<in> set (cells df). map_of imgs (py_strip (py_str_cell (cell_at (columns df) row col_img))) \<noteq> None))
    \<and> (\<forall>pre row post c es.
          cells df = pre @ row # post
          \<and> build_entries env imgs (columns df) col_img
               (py_or (cols_ci (columns df) ''beschreibung'') (cols_ci (columns df) ''text''))
               (find_date_column (columns df)) 0 pre = (c, Inr es)
          \<and> map_of imgs (py_strip (py_str_cell (cell_at (columns df) row col_img))) = None
          \<longrightarrow> err (build_site env args)
                = Some (FileNotFoundError (py_strip (py_str_cell (cell_at (columns df) row col_img))))
              \<and> pages (build_site env args) = [])"
proof -
  let ?cd = "py_or (cols_ci (columns df) ''beschreibung'') (cols_ci (columns df) ''text'')"
  let ?dc = "find_date_column (columns df)"
  let ?name = "\<lambda>row. py_strip (py_str_cell (cell_at (columns df) row col_img))"
  have re: "read_entries env = (True, build_entries env imgs (columns df) col_img ?cd ?dc 0 (cells df))"
    using assms by (simp add: read_entries_def Let_def)
  have ok: "\<forall>row \<in> set (cells df). map_of imgs (?name row) \<noteq> None"
    if "read_entries env = (cl, copies, Inr entries)" for cl copies entries
    using that re build_entries_ok_all_exist [of env imgs "columns df" col_img ?cd ?dc 0 "cells df" copies entries]
    by simp
  have 2: "pages (build_site env args) \<noteq> [] \<longrightarrow> (\<forall>row \<in> set (cells df). map_of imgs (?name row) \<noteq> None)"
    using build_site_pages_nonempty [of env args] ok by blast
  have 1: "(\<exists>row \<in> set (cells df). map_of imgs (?name row) = None)
            \<longrightarrow> err (build_site env args) \<noteq> None \<and> pages (build_site env args) = []"
  proof
    assume miss: "\<exists>row \<in> set (cells df). map_of imgs (?name row) = None"
    obtain cl copies r where r: "read_entries env = (cl, copies, r)" by (cases "read_entries env") auto
    show "err (build_site env args) \<noteq> None \<and> pages (build_site env args) = []"
    proof (cases r)
      case (Inl e)
      with r build_site_failed [of env cl copies e args] show ?thesis by simp
    next
      case (Inr entries)
      with r ok [of cl copies entries] miss show ?thesis by blast
    qed
  qed
  have 3: "err (build_site env args) = Some (FileNotFoundError (?name row)) \<and> pages (build_site env args) = []"
    if "cells df = pre @ row # post"
      and "build_entries env imgs (columns df) col_img ?cd ?dc 0 pre = (c, Inr es)"
      and "map_of imgs (?name row) = None" for pre row post c es
  proof -
    from build_entries_first_missing [OF that(2) that(3), of post] that(1)
    have "read_entries env = (True, c, Inl (FileNotFoundError (?name row)))"
      by (simp add: re)
    then show ?thesis by (rule build_site_failed)
  qed
  from 1 2 3 show ?thesis by blast
qed

section \<open>What the output of build_site depends on\<close>





section \<open>The examples, evaluated\<close>

lemma shoot_collect: "collect_items utc (iter_images shoot_files) = Inr shoot_items"
  by code_simp

lemma shoot_main: "excel_main utc shoot_args shoot_files = Inr shoot_rows"
  by code_simp

lemma album_read: "read_entries (album_env 0 old) = (True, album_copies, Inr album_entries)"
  by code_simp


lemma gap_read_pre:
  "build_entries gap_env [(''b.jpg'', photo 86399 2)] [''Bildname''] ''Bildname''
     (py_or (cols_ci [''Bildname''] ''beschreibung'') (cols_ci [''Bildname''] ''text''))
     (find_date_column [''Bildname'']) 0 [ [Txt ''b.jpg''] ]
   = ([(''assets/images/b.jpg'', 2), (''assets/thumbs/b.jpg'', 2)],
      Inr [\<lparr>e_num = ''001'', e_image = ''b.jpg'', e_thumb = ''assets/thumbs/b.jpg'', e_href = ''e/001.html'',
            e_date = ''01.01.1970'', e_desc = []\<rparr>])"
  by code_simp

lemma gap_cols: "cols_ci (columns gap_sheet) ''bildname'' = Some ''Bildname''"
  by code_simp

lemma gap_name: "py_strip (py_str_cell (cell_at [''Bildname''] [Txt ''missing.jpg''] ''Bildname'')) = ''missing.jpg''"
  by code_simp



theorem excel_ids_unique_padded_monotonic_witness:
  "collect_items utc (iter_images shoot_files) = Inr shoot_items
   \<and> excel_main utc shoot_args shoot_files = Inr shoot_rows
   \<and> length shoot_rows = length shoot_items
   \<and> distinct (map row_id shoot_rows)
   \<and> map (\<lambda>r. py_int (row_id r)) shoot_rows = map (\<lambda>i. Some (int i)) [1..<Suc (length shoot_items)]
   \<and> sorted (map (\<lambda>x. dt_key (snd x)) (sort_items shoot_items))"
proof -
  note c = excel_ids_unique_padded_monotonic [OF shoot_collect shoot_main]
  note c1 = c [THEN conjunct1]
  note c2 = c [THEN conjunct2, THEN conjunct1]
  note c4 = c [THEN conjunct2, THEN conjunct2, THEN conjunct2, THEN conjunct1]
  note c6 = c [THEN conjunct2, THEN conjunct2, THEN conjunct2, THEN conjunct2, THEN conjunct2, THEN conjunct1]
  show ?thesis by (intro conjI) (fact shoot_collect shoot_main c1 c2 c4 c6)+
qed


theorem qr_codes_link_detail_pages_witness:
  "read_entries (album_env 0 []) = (True, album_copies, Inr album_entries)
   \<and> (make_qr qr_args \<or> qrs_pdf qr_args \<or> labels qr_args)
   \<and> s_base_url qr_args = Some ''https://example.org''
   \<and> qrs (build_site (album_env 0 []) qr_args)
        = map (\<lambda>m. (''assets/qrcodes/'' @ e_num m @ ''.png'', ''https://example.org'' @ ''/e/'' @ e_num m @ ''.html'')) album_entries
   \<and> distinct (map fst (qrs (build_site (album_env 0 []) qr_args)))"
proof -
  have r: "read_entries (album_env 0 []) = (True, album_copies, Inr album_entries)" by (rule album_read)
  have a: "make_qr qr_args \<or> qrs_pdf qr_args \<or> labels qr_args" by (simp add: qr_args_def)
  have b: "s_base_url qr_args = Some ''https://example.org''" by (simp add: qr_args_def)
  have n: "''https://example.org'' \<noteq> []" by simp
  note c = qr_codes_link_detail_pages [OF r a b n]
  note c1 = c [THEN conjunct1]
  note c4 = c [THEN conjunct2, THEN conjunct2, THEN conjunct2]
  show ?thesis by (intro conjI) (fact r a b c1 c4)+
qed

text \<open>
  Claim C9 at a failing input. A text without any asterisk is not returned as escaped:
  every character of the one-letter text becomes the replacement of the first pattern,
  and every character of that becomes the replacement of the second; a text in double
  asterisks does not become a \<open>strong\<close> element around it.
\<close>

theorem md_to_html_plain_letter:
  "html_escape ''a'' = ''a''
   \<and> md_to_html ''a'' = concat (replicate 18 (''<em>'' @ [BSL] @ ''1</em>''))
   \<and> re_sub RE_STRONG REPL_STRONG ''**x**'' = concat (replicate 5 (''<strong>'' @ [BSL] @ ''1</strong>''))"
  by code_simp

text \<open>
  Claim C7 at a failing input. Two pictures with the same timestamp and no file of the
  canonical name on disk are both planned to that name; under \<open>--apply\<close> the second
  conversion replaces the first, both sources are removed, and one picture is left.
\<close>

theorem rename_same_second_overwrites:
  "rename_main utc True 1700010000 burst_disk =
     Some ([((''d'', ''a.png''), (''d'', ''1970-01-01_235959.jpeg''),
              \<lparr>dt_year = 1970, dt_month = 1, dt_day = 1, dt_hour = 23, dt_minute = 59, dt_second = 59\<rparr>, False),
            ((''d'', ''b.png''), (''d'', ''1970-01-01_235959.jpeg''),
              \<lparr>dt_year = 1970, dt_month = 1, dt_day = 1, dt_hour = 23, dt_minute = 59, dt_second = 59\<rparr>, False)],
           [((''d'', ''1970-01-01_235959.jpeg''),
              \<lparr>exif = None, mdls_out = None, st_birthtime = None, st_mtime = 1700010000, pixels = Some 2\<rparr>)])"
  by code_simp

text \<open>
  Claim C6 at a failing input. The picture carries the EXIF date 2020-05-17, which
  \<open>extract_exif_datetime\<close> of the other two scripts reads; \<open>exif_datetime\<close> of
  \<open>build_site\<close> returns nothing for it, and the row, which has no date cell, shows the
  date of the modification time.
\<close>

theorem site_shows_mtime_despite_exif_date:
  "exif exif_photo = Some [(36867, ''2020:05:17 10:30:00'')]
   \<and> extract_exif_datetime exif_photo
        = Some \<lparr>dt_year = 2020, dt_month = 5, dt_day = 17, dt_hour = 10, dt_minute = 30, dt_second = 0\<rparr>
   \<and> exif_datetime exif_photo = None
   \<and> strftime_dmy (fromtimestamp 0 (st_mtime exif_photo)) = ''14.11.2023''
   \<and> (case read_entries (album_env 0 []) of (cl, copies, r) \<Rightarrow> map_sum id (map e_date) r)
        = Inr [''14.11.2023'', ''01.01.1970'']"
  by code_simp






text \<open>
  As stated, claim C4 promises \<open>FileNotFoundError\<close> whenever some row names a missing picture.
  The loop checks and copies row by row: a first row whose file exists but cannot be
  decoded ends the run in \<open>resize_copy\<close> before the second, missing, picture is looked at.
\<close>

theorem undecodable_image_before_missing_image_counterexample:
  "xlsx broken_env = Some \<lparr>columns = [''Bildname''], cells = [ [Txt ''a.jpg''], [Txt ''missing.jpg''] ]\<rparr>
   \<and> map_of (case images_dir broken_env of Some imgs \<Rightarrow> imgs | None \<Rightarrow> []) ''missing.jpg'' = None
   \<and> err (build_site broken_env qr_args) = Some ImageError
   \<and> err (build_site broken_env qr_args) \<noteq> Some (FileNotFoundError ''missing.jpg'')"
  by code_simp

theorem missing_image_stops_before_pages_witness:
  "xlsx gap_env = Some gap_sheet
   \<and> images_dir gap_env = Some [(''b.jpg'', photo 86399 2)]
   \<and> cols_ci (columns gap_sheet) ''bildname'' = Some ''Bildname''
   \<and> cells gap_sheet = [ [Txt ''b.jpg''] ] @ [Txt ''missing.jpg''] # []
   \<and> map_of [(''b.jpg'', photo 86399 2)] (py_strip (py_str_cell (cell_at (columns gap_sheet) [Txt ''missing.jpg''] ''Bildname''))) = None
   \<and> err (build_site gap_env qr_args) = Some (FileNotFoundError (py_strip (py_str_cell (cell_at (columns gap_sheet) [Txt ''missing.jpg''] ''Bildname''))))
   \<and> pages (build_site gap_env qr_args) = []"
proof -
  have h1: "xlsx gap_env = Some gap_sheet"
    and h2: "images_dir gap_env = Some [(''b.jpg'', photo 86399 2)]"
    by (simp_all add: gap_env_def)
  have h3: "cols_ci (columns gap_sheet) ''bildname'' = Some ''Bildname''" by (rule gap_cols)
  have s: "cells gap_sheet = [ [Txt ''b.jpg''] ] @ [Txt ''missing.jpg''] # []"
    by (simp add: gap_sheet_def)
  have pre: "build_entries gap_env [(''b.jpg'', photo 86399 2)] (columns gap_sheet) ''Bildname''
     (py_or (cols_ci (columns gap_sheet) ''beschreibung'') (cols_ci (columns gap_sheet) ''text''))
     (find_date_column (columns gap_sheet)) 0 [ [Txt ''b.jpg''] ]
   = ([(''assets/images/b.jpg'', 2), (''assets/thumbs/b.jpg'', 2)],
      Inr [\<lparr>e_num = ''001'', e_image = ''b.jpg'', e_thumb = ''assets/thumbs/b.jpg'', e_href = ''e/001.html'',
            e_date = ''01.01.1970'', e_desc = []\<rparr>])"
    using gap_read_pre by (simp add: gap_sheet_def)
  have m: "map_of [(''b.jpg'', photo 86399 2)] (py_strip (py_str_cell (cell_at (columns gap_sheet) [Txt ''missing.jpg''] ''Bildname''))) = None"
    using gap_name by (simp add: gap_sheet_def)
  note c = missing_image_stops_before_pages [OF h1 h2 h3, where args = qr_args]
  note c3 = c [THEN conjunct2, THEN conjunct2, THEN spec, THEN spec, THEN spec, THEN spec, THEN spec, THEN mp,
      OF conjI [OF s conjI [OF pre m] ]]
  show ?thesis by (intro conjI) (fact h1 h2 h3 s m c3 [THEN conjunct1] c3 [THEN conjunct2])+
qed

text \<open>
  Claim C1 at a failing input. The name of the file matches the date pattern with the
  digits of 30 February: the file-name source yields no date and the EXIF source yields
  one, which is the timestamp the order of the sources gives. \<open>datetime_from_filename\<close>
  calls the constructor outside any \<open>try\<close>, so the run ends with \<open>ValueError\<close> and no
  timestamp is inferred; \<open>extract_exif_datetime\<close> catches the same error of the same
  constructor.
\<close>

theorem excel_invalid_filename_date_raises:
  "re_search DATE_RE_FILENAME (path_stem ''2020-02-30_120000.jpg'') = Some [''2020'', ''02'', ''30'', ''12'', ''00'', ''00'']
   \<and> mk_datetime 2020 2 30 12 0 0 = None
   \<and> datetime_from_filename (''d'', ''2020-02-30_120000.jpg'') = Inl ValueError
   \<and> extract_exif_datetime exif_photo
        = Some \<lparr>dt_year = 2020, dt_month = 5, dt_day = 17, dt_hour = 10, dt_minute = 30, dt_second = 0\<rparr>
   \<and> spec_timestamp utc ((''d'', ''2020-02-30_120000.jpg''), exif_photo)
        = \<lparr>dt_year = 2020, dt_month = 5, dt_day = 17, dt_hour = 10, dt_minute = 30, dt_second = 0\<rparr>
   \<and> resolve_dt utc ((''d'', ''2020-02-30_120000.jpg''), exif_photo) = Inl ValueError
   \<and> excel_main utc shoot_args feb30_files = Inl ValueError"
  by code_simp

lemma album_page_2_text:
  "snd (detail_page album_entries 1) = album_page_2_head @ '' <a href='' @ DQ @ ''e/001.html'' @ DQ @ ''>'' @ [CHR 0xC2, CHR 0xAB] @ '' Vorheriger</a></nav></article></main><footer class='' @ DQ @ ''site-footer'' @ DQ @ ''><p>Erstellt mit '' @ [CHR 0xE2, CHR 0x9D, CHR 0xA4, CHR 0xEF, CHR 0xB8, CHR 0x8F] @ '' f'' @ [CHR 0xC3, CHR 0xBC] @ ''rs Geschenk</p></footer></body></html>''"
  by code_simp

lemma album_page_paths:
  "map fst (detail_pages album_entries @ [index_page album_entries]) = [''e/001.html'', ''e/002.html'', ''index.html'']"
  by (simp add: detail_pages_def detail_page_def index_page_def album_entries_def Let_def upt_rec)

lemma links_resolved:
  "resolve_href ''e/002.html'' ''e/001.html'' = ''e/e/001.html''"
  "resolve_href ''e/002.html'' ''e/001.html'' \<noteq> ''e/001.html''"
  "resolve_href ''e/002.html'' ''../index.html'' = ''index.html''"
  "resolve_href ''index.html'' ''e/001.html'' = ''e/001.html''"
  by code_simp+

text \<open>
  Claim C8 at a failing input. The second detail page of a two-row album is written to
  \<open>e/002.html\<close>; its text ends with the link whose \<open>href\<close> is \<open>e/001.html\<close>, the path of
  the first page from the root of the site. From a page inside \<open>e/\<close> that reference
  resolves to \<open>e/e/001.html\<close>, where the run writes no page, and not to the page of the
  first row. The link back to the index on the same page is written \<open>../index.html\<close> and
  does resolve to the index.
\<close>

theorem detail_page_prev_link_resolves_below_e:
  "map fst (pages (build_site (album_env 0 []) qr_args)) = [''e/001.html'', ''e/002.html'', ''index.html'']
   \<and> snd (pages (build_site (album_env 0 []) qr_args) ! 1)
        = album_page_2_head @ '' <a href='' @ DQ @ ''e/001.html'' @ DQ @ ''>'' @ [CHR 0xC2, CHR 0xAB] @ '' Vorheriger</a></nav></article></main><footer class='' @ DQ @ ''site-footer'' @ DQ @ ''><p>Erstellt mit '' @ [CHR 0xE2, CHR 0x9D, CHR 0xA4, CHR 0xEF, CHR 0xB8, CHR 0x8F] @ '' f'' @ [CHR 0xC3, CHR 0xBC] @ ''rs Geschenk</p></footer></body></html>''
   \<and> resolve_href ''e/002.html'' ''e/001.html'' = ''e/e/001.html''
   \<and> resolve_href ''e/002.html'' ''e/001.html'' \<noteq> ''e/001.html''
   \<and> map_of (pages (build_site (album_env 0 []) qr_args)) (resolve_href ''e/002.html'' ''e/001.html'') = None
   \<and> resolve_href ''e/002.html'' ''../index.html'' = ''index.html''
   \<and> resolve_href ''index.html'' ''e/001.html'' = ''e/001.html''"
proof -
  have p: "pages (build_site (album_env 0 []) qr_args) = detail_pages album_entries @ [index_page album_entries]"
    using album_read [of "[]"] by (rule build_site_pages)
  have paths: "map fst (pages (build_site (album_env 0 []) qr_args)) = [''e/001.html'', ''e/002.html'', ''index.html'']"
    by (simp only: p album_page_paths)
  have "pages (build_site (album_env 0 []) qr_args) ! 1 = detail_page album_entries 1"
    by (simp add: p detail_pages_def nth_append album_entries_def)
  then have page: "snd (pages (build_site (album_env 0 []) qr_args) ! 1)
        = album_page_2_head @ '' <a href='' @ DQ @ ''e/001.html'' @ DQ @ ''>'' @ [CHR 0xC2, CHR 0xAB] @ '' Vorheriger</a></nav></article></main><footer class='' @ DQ @ ''site-footer'' @ DQ @ ''><p>Erstellt mit '' @ [CHR 0xE2, CHR 0x9D, CHR 0xA4, CHR 0xEF, CHR 0xB8, CHR 0x8F] @ '' f'' @ [CHR 0xC3, CHR 0xBC] @ ''rs Geschenk</p></footer></body></html>''"
    by (simp only: album_page_2_text)
  have "''e/e/001.html'' \<notin> set (map fst (pages (build_site (album_env 0 []) qr_args)))"
    by (simp only: paths) simp
  then have "map_of (pages (build_site (album_env 0 []) qr_args)) ''e/e/001.html'' = None"
    by (simp add: map_of_eq_None_iff)
  then have none: "map_of (pages (build_site (album_env 0 []) qr_args)) (resolve_href ''e/002.html'' ''e/001.html'') = None"
    by (simp only: links_resolved(1))
  show ?thesis by (intro conjI) (fact paths page links_resolved none)+
qed

end
